theory Spec2Isabelle
  imports Main "HOL-Library.Multiset"
begin

section \<open>JavaScript values of a request body\<close>

text \<open>
  The handlers of \<^verbatim>\<open>server.js\<close> read fields of \<^verbatim>\<open>req.body\<close>, the JSON (or
  URL-encoded) object parsed by Express. A field is a scalar JavaScript value; a field
  that the body does not have reads as \<^verbatim>\<open>undefined\<close>. Numbers are the integers
  (a JSON integer of at most 53 significant bits is exact as a double); nested objects and arrays
  as field values are outside this model.
\<close>

datatype jsval = Undefined | Null | JBool bool | JNum int | JStr string

text \<open>JavaScript's \<^verbatim>\<open>ToBoolean\<close>: what \<^verbatim>\<open>!x\<close> and \<^verbatim>\<open>x || y\<close> test.\<close>

fun truthy :: "jsval \<Rightarrow> bool" where
  "truthy Undefined = False"
| "truthy Null = False"
| "truthy (JBool b) = b"
| "truthy (JNum n) = (n \<noteq> 0)"
| "truthy (JStr s) = (s \<noteq> [])"

text \<open>\<^verbatim>\<open>a || b\<close>\<close>

definition js_or :: "jsval \<Rightarrow> jsval \<Rightarrow> jsval" where
  "js_or a b = (if truthy a then a else b)"

text \<open>An object is its list of properties; \<^verbatim>\<open>obj.k\<close> of an absent key is \<^verbatim>\<open>undefined\<close>.\<close>

type_synonym js_object = "(string \<times> jsval) list"

definition jsget :: "js_object \<Rightarrow> string \<Rightarrow> jsval" where
  "jsget obj k = (case map_of obj k of None \<Rightarrow> Undefined | Some v \<Rightarrow> v)"

text \<open>
  \<^verbatim>\<open>new Date(v).getTime()\<close>: the millisecond timestamp, \<open>None\<close> for \<^verbatim>\<open>NaN\<close>
  (an invalid date). \<^verbatim>\<open>undefined\<close> is invalid, \<^verbatim>\<open>null\<close> and booleans convert to
  numbers, a number is a time value when within \<open>\<plusminus>8.64e15\<close>, and a string goes to
  the runtime's date parser, which is a parameter here.
\<close>

fun Date_getTime :: "(string \<Rightarrow> int option) \<Rightarrow> jsval \<Rightarrow> int option" where
  "Date_getTime parse Undefined = None"
| "Date_getTime parse Null = Some 0"
| "Date_getTime parse (JBool b) = Some (if b then 1 else 0)"
| "Date_getTime parse (JNum n) = (if \<bar>n\<bar> \<le> 8640000000000000 then Some n else None)"
| "Date_getTime parse (JStr s) = parse s"

text \<open>\<^verbatim>\<open>Math.floor(t / 1000)\<close>; \<^verbatim>\<open>NaN\<close> stays \<^verbatim>\<open>NaN\<close>. On \<open>int\<close>, \<open>div\<close> rounds down.\<close>

definition floor_seconds :: "int option \<Rightarrow> int option" where
  "floor_seconds t = map_option (\<lambda>ms. ms div 1000) t"

section \<open>JavaScript numbers\<close>

text \<open>
  A JavaScript number is an IEEE 754 double. The amounts the ledger sends are integers,
  and the handlers only add them, so the numbers that occur are the integer-valued
  doubles and the infinities; \<^verbatim>\<open>NaN\<close> is there for the sum of opposite infinities.
  An integer is a double when it has at most 53 significant bits; every other integer
  is rounded to the nearest such value, a tie going to the even mantissa, and a result
  of magnitude \<open>2^1024\<close> or more is an infinity.
\<close>

datatype jsnum = Finite int | PosInfinity | NegInfinity | NaN

fun bit_length :: "nat \<Rightarrow> nat" where
  "bit_length n = (if n = 0 then 0 else Suc (bit_length (n div 2)))"

text \<open>Rounding to a multiple of \<open>2^e\<close>, to the nearest, a tie to the even multiple.\<close>

definition round_to :: "nat \<Rightarrow> int \<Rightarrow> int" where
  "round_to e x =
    (let u = 2 ^ e; q = x div u; r = x mod u
     in if 2 * r < u then q * u
        else if u < 2 * r then (q + 1) * u
        else if even q then q * u else (q + 1) * u)"

text \<open>
  The nearest integer with at most 53 significant bits. Up to \<open>2^53\<close> in magnitude
  every integer is one; above, the spacing is \<open>2^(k - 53)\<close> for an integer of \<open>k\<close>
  bits.
\<close>

definition round_double :: "int \<Rightarrow> int" where
  "round_double x =
    (if \<bar>x\<bar> \<le> 2 ^ 53 then x else round_to (bit_length (nat \<bar>x\<bar>) - 53) x)"

text \<open>
  The double of an integer: what \<^verbatim>\<open>JSON.parse\<close> makes of an integer literal, and what
  an addition makes of its exact result.
\<close>

definition to_double :: "int \<Rightarrow> jsnum" where
  "to_double x =
    (let y = round_double x
     in if 2 ^ 1024 \<le> y then PosInfinity
        else if y \<le> - (2 ^ 1024) then NegInfinity
        else Finite y)"

text \<open>\<^verbatim>\<open>a + b\<close> on numbers.\<close>

fun js_add :: "jsnum \<Rightarrow> jsnum \<Rightarrow> jsnum" where
  "js_add (Finite a) (Finite b) = to_double (a + b)"
| "js_add NaN _ = NaN"
| "js_add _ NaN = NaN"
| "js_add PosInfinity NegInfinity = NaN"
| "js_add NegInfinity PosInfinity = NaN"
| "js_add PosInfinity _ = PosInfinity"
| "js_add _ PosInfinity = PosInfinity"
| "js_add NegInfinity _ = NegInfinity"
| "js_add _ NegInfinity = NegInfinity"

section \<open>The ledger: Stripe's PaymentIntents API\<close>

text \<open>
  A PaymentIntent as the handlers read it. \<open>pi_charges\<close> is \<^verbatim>\<open>pi.charges?.data\<close>
  (absent, or the list of charges), and a charge is read only for
  \<^verbatim>\<open>payment_method_details?.card_present?.reader\<close>, which is absent or a string.
  Metadata values are whatever the creating call wrote. \<open>pi_amount\<close> is the integer
  of the ledger's JSON; read as a number it is \<open>to_double\<close> of it.
\<close>

record charge =
  ch_reader :: "string option"

record payment_intent =
  pi_id :: string
  pi_client_secret :: string
  pi_status :: string
  pi_amount :: int
  pi_currency :: string
  pi_created :: int
  pi_metadata :: js_object
  pi_charges :: "charge list option"

record created_range =
  gte :: "int option"
  lte :: "int option"

record list_params =
  lp_created :: created_range
  lp_limit :: nat

record list_page =
  page_data :: "payment_intent list"
  page_has_more :: bool

record create_params =
  cp_amount :: jsval
  cp_currency :: jsval
  cp_capture_method :: string
  cp_description :: jsval
  cp_receipt_email :: jsval
  cp_payment_method_types :: "string list"
  cp_metadata :: js_object

text \<open>
  The client \<^verbatim>\<open>stripe.paymentIntents\<close>: each call either throws (\<open>Inl\<close> of the
  error's message) or returns. The ledger itself is outside the repository.
\<close>

record stripe =
  paymentIntents_create :: "create_params \<Rightarrow> string + payment_intent"
  paymentIntents_update :: "jsval \<Rightarrow> jsval \<Rightarrow> string + payment_intent"
  paymentIntents_list :: "list_params \<Rightarrow> string + list_page"

text \<open>The calls a handler issued to the ledger, in order.\<close>

datatype stripe_call =
    CreateCall create_params
  | UpdateCall jsval jsval
  | ListCall list_params

section \<open>Responses\<close>

datatype json =
    JNull
  | JNumber int
  | JString string
  | JBoolean bool
  | JIntent payment_intent
  | JIntents "payment_intent list"

record response =
  res_status :: nat
  res_json :: "(string \<times> json) list"

text \<open>
  A number in a response: \<^verbatim>\<open>JSON.stringify\<close>, which \<^verbatim>\<open>res.json\<close> calls, writes an
  infinity and \<^verbatim>\<open>NaN\<close> as \<^verbatim>\<open>null\<close>.
\<close>

fun json_of_num :: "jsnum \<Rightarrow> json" where
  "json_of_num (Finite n) = JNumber n"
| "json_of_num _ = JNull"

definition respond :: "nat \<Rightarrow> (string \<times> json) list \<Rightarrow> response" where
  "respond code obj = \<lparr>res_status = code, res_json = obj\<rparr>"

section \<open>The handlers of server.js\<close>

text \<open>
  Each handler runs after the \<^verbatim>\<open>authenticate\<close> middleware has let the request
  through. It returns the response and the ledger calls it made.
\<close>

text \<open>\<^verbatim>\<open>POST /update_payment_intent\<close>\<close>

definition update_payment_intent :: "stripe \<Rightarrow> js_object \<Rightarrow> response \<times> stripe_call list" where
  "update_payment_intent api body =
    (let payment_intent_id = jsget body ''payment_intent_id'';
         receipt_email = jsget body ''receipt_email''
     in if \<not> truthy payment_intent_id \<or> \<not> truthy receipt_email
        then (respond 400 [(''error'', JString ''Missing payment_intent_id or receipt_email'')], [])
        else (case paymentIntents_update api payment_intent_id receipt_email of
                Inl message \<Rightarrow>
                  (respond 500 [(''error'', JString message)],
                   [UpdateCall payment_intent_id receipt_email])
              | Inr paymentIntent \<Rightarrow>
                  (respond 200 [(''success'', JBoolean True), (''paymentIntent'', JIntent paymentIntent)],
                   [UpdateCall payment_intent_id receipt_email])))"

text \<open>\<^verbatim>\<open>POST /create_payment_intent\<close>\<close>

definition create_payment_intent :: "stripe \<Rightarrow> js_object \<Rightarrow> response \<times> stripe_call list" where
  "create_payment_intent api body =
    (let amount = jsget body ''amount'';
         currency = jsget body ''currency'';
         description = jsget body ''description'';
         receipt_email = jsget body ''receipt_email'';
         terminal_label = jsget body ''terminal_label'';
         staff_name = jsget body ''staff_name'';
         params = \<lparr>cp_amount = amount,
                   cp_currency = currency,
                   cp_capture_method = ''automatic'',
                   cp_description = js_or description (JStr ''Terminal Transaction''),
                   cp_receipt_email = js_or receipt_email Undefined,
                   cp_payment_method_types = [''card_present''],
                   cp_metadata = [(''terminal_label'', js_or terminal_label (JStr [])),
                                  (''staff_name'', js_or staff_name (JStr ''Unknown''))]\<rparr>
     in case paymentIntents_create api params of
          Inl message \<Rightarrow> (respond 500 [(''error'', JString message)], [CreateCall params])
        | Inr paymentIntent \<Rightarrow>
            (respond 200 [(''intent'', JString (pi_id paymentIntent)),
                          (''secret'', JString (pi_client_secret paymentIntent))],
             [CreateCall params]))"

text \<open>
  \<^verbatim>\<open>filtered[0]?.currency || "eur"\<close>: the currency of the first record, and
  \<^verbatim>\<open>"eur"\<close> when there is no record or its currency is the empty string.
\<close>

definition first_currency :: "payment_intent list \<Rightarrow> string" where
  "first_currency filtered =
    (case filtered of
       [] \<Rightarrow> ''eur''
     | p # _ \<Rightarrow> (if pi_currency p \<noteq> [] then pi_currency p else ''eur''))"

text \<open>
  \<^verbatim>\<open>POST /transactions_for_terminal\<close> of \<^verbatim>\<open>src/server.js\<close>: the selector is
  \<^verbatim>\<open>staff_name\<close>.
\<close>

definition transactions_for_terminal ::
  "stripe \<Rightarrow> (string \<Rightarrow> int option) \<Rightarrow> js_object \<Rightarrow> response \<times> stripe_call list" where
  "transactions_for_terminal api parse body =
    (let start = jsget body ''start'';
         endv = jsget body ''end'';
         staff_name = jsget body ''staff_name''
     in if \<not> truthy start \<or> \<not> truthy endv \<or> \<not> truthy staff_name
        then (respond 400 [(''error'', JString ''Missing start, end, or staff_name'')], [])
        else
          (let created = \<lparr>gte = floor_seconds (Date_getTime parse start),
                           lte = floor_seconds (Date_getTime parse endv)\<rparr>;
               params = \<lparr>lp_created = created, lp_limit = 500\<rparr>
           in case paymentIntents_list api params of
                Inl message \<Rightarrow> (respond 500 [(''error'', JString message)], [ListCall params])
              | Inr paymentIntents \<Rightarrow>
                  (let filtered = filter (\<lambda>pi. pi_status pi = ''succeeded''
                                               \<and> jsget (pi_metadata pi) ''staff_name'' = staff_name)
                                         (page_data paymentIntents);
                       total = foldl (\<lambda>sum pi. js_add sum (to_double (pi_amount pi))) (Finite 0) filtered
                   in (respond 200 [(''total'', json_of_num total),
                                    (''currency'', JString (first_currency filtered)),
                                    (''count'', JNumber (int (length filtered))),
                                    (''transactions'', JIntents filtered)],
                       [ListCall params]))))"

text \<open>
  \<^verbatim>\<open>POST /transactions_for_terminal\<close> of the earlier version
  (\<^verbatim>\<open>src/unnamed/part_002\<close>): the selector is \<^verbatim>\<open>terminal_label\<close>, with
  \<^verbatim>\<open>terminal_id\<close> accepted in its place and then not used by the filter.
\<close>

definition transactions_for_terminal_label ::
  "stripe \<Rightarrow> (string \<Rightarrow> int option) \<Rightarrow> js_object \<Rightarrow> response \<times> stripe_call list" where
  "transactions_for_terminal_label api parse body =
    (let start = jsget body ''start'';
         endv = jsget body ''end'';
         terminal_id = jsget body ''terminal_id'';
         terminal_label = jsget body ''terminal_label''
     in if \<not> truthy start \<or> \<not> truthy endv \<or> (\<not> truthy terminal_id \<and> \<not> truthy terminal_label)
        then (respond 400 [(''error'', JString ''Missing start, end, or terminal_id or terminal_label'')], [])
        else
          (let created = \<lparr>gte = floor_seconds (Date_getTime parse start),
                           lte = floor_seconds (Date_getTime parse endv)\<rparr>;
               params = \<lparr>lp_created = created, lp_limit = 500\<rparr>
           in case paymentIntents_list api params of
                Inl message \<Rightarrow> (respond 500 [(''error'', JString message)], [ListCall params])
              | Inr paymentIntents \<Rightarrow>
                  (let filtered = filter (\<lambda>pi.
                                            if truthy terminal_label
                                            then pi_status pi = ''succeeded''
                                                 \<and> jsget (pi_metadata pi) ''terminal_label'' = terminal_label
                                            else pi_status pi = ''succeeded'')
                                         (page_data paymentIntents);
                       total = foldl (\<lambda>sum pi. js_add sum (to_double (pi_amount pi))) (Finite 0) filtered
                   in (respond 200 [(''total'', json_of_num total),
                                    (''currency'', JString (first_currency filtered)),
                                    (''count'', JNumber (int (length filtered))),
                                    (''transactions'', JIntents filtered)],
                       [ListCall params]))))"

text \<open>
  \<^verbatim>\<open>pi.charges?.data[0]\<close> and then
  \<^verbatim>\<open>charge?.payment_method_details?.card_present?.reader\<close>: \<^verbatim>\<open>undefined\<close> when any
  link of the chain is absent.
\<close>

definition readerId :: "payment_intent \<Rightarrow> jsval" where
  "readerId pi =
    (case pi_charges pi of
       None \<Rightarrow> Undefined
     | Some [] \<Rightarrow> Undefined
     | Some (c # _) \<Rightarrow> (case ch_reader c of None \<Rightarrow> Undefined | Some r \<Rightarrow> JStr r))"

text \<open>
  \<^verbatim>\<open>POST /transactions_for_terminal\<close> of the first version
  (\<^verbatim>\<open>src/unnamed/part_000\<close>): the selector is \<^verbatim>\<open>terminal_id\<close>, compared with the
  reader recorded on the first charge.
\<close>

definition transactions_for_terminal_reader ::
  "stripe \<Rightarrow> (string \<Rightarrow> int option) \<Rightarrow> js_object \<Rightarrow> response \<times> stripe_call list" where
  "transactions_for_terminal_reader api parse body =
    (let start = jsget body ''start'';
         endv = jsget body ''end'';
         terminal_id = jsget body ''terminal_id''
     in if \<not> truthy start \<or> \<not> truthy endv \<or> \<not> truthy terminal_id
        then (respond 400 [(''error'', JString ''Missing start, end, or terminal_id'')], [])
        else
          (let created = \<lparr>gte = floor_seconds (Date_getTime parse start),
                           lte = floor_seconds (Date_getTime parse endv)\<rparr>;
               params = \<lparr>lp_created = created, lp_limit = 500\<rparr>
           in case paymentIntents_list api params of
                Inl message \<Rightarrow> (respond 500 [(''error'', JString message)], [ListCall params])
              | Inr paymentIntents \<Rightarrow>
                  (let filtered = filter (\<lambda>pi. pi_status pi = ''succeeded'' \<and> readerId pi = terminal_id)
                                         (page_data paymentIntents);
                       total = foldl (\<lambda>sum pi. js_add sum (to_double (pi_amount pi))) (Finite 0) filtered
                   in (respond 200 [(''total'', json_of_num total),
                                    (''currency'', JString (first_currency filtered)),
                                    (''count'', JNumber (int (length filtered))),
                                    (''transactions'', JIntents filtered)],
                       [ListCall params]))))"

section \<open>Reading a response\<close>

text \<open>The total of a response when it is a number; \<open>None\<close> for \<^verbatim>\<open>null\<close> or no total.\<close>

fun num_value :: "jsnum \<Rightarrow> int option" where
  "num_value (Finite n) = Some n"
| "num_value _ = None"

definition res_total :: "response \<Rightarrow> int option" where
  "res_total r = (case map_of (res_json r) ''total'' of Some (JNumber n) \<Rightarrow> Some n | _ \<Rightarrow> None)"

definition res_count :: "response \<Rightarrow> int option" where
  "res_count r = (case map_of (res_json r) ''count'' of Some (JNumber n) \<Rightarrow> Some n | _ \<Rightarrow> None)"

definition res_currency :: "response \<Rightarrow> string option" where
  "res_currency r = (case map_of (res_json r) ''currency'' of Some (JString c) \<Rightarrow> Some c | _ \<Rightarrow> None)"

definition res_transactions :: "response \<Rightarrow> payment_intent list" where
  "res_transactions r = (case map_of (res_json r) ''transactions'' of Some (JIntents l) \<Rightarrow> l | _ \<Rightarrow> [])"

definition res_keys :: "response \<Rightarrow> string list" where
  "res_keys r = map fst (res_json r)"

text \<open>The request's window as the handlers send it to the ledger.\<close>

definition window_params :: "(string \<Rightarrow> int option) \<Rightarrow> js_object \<Rightarrow> list_params" where
  "window_params parse body =
     \<lparr>lp_created = \<lparr>gte = floor_seconds (Date_getTime parse (jsget body ''start'')),
                     lte = floor_seconds (Date_getTime parse (jsget body ''end''))\<rparr>,
      lp_limit = 500\<rparr>"

section \<open>The filters and the summary, named\<close>

text \<open>
  The predicate each handler passes to \<^verbatim>\<open>filter\<close>, and the object it passes to
  \<^verbatim>\<open>res.json\<close> on success, under names of their own: the lemmas below show that
  the handlers compute exactly these.
\<close>

definition staff_match :: "jsval \<Rightarrow> payment_intent \<Rightarrow> bool" where
  "staff_match staff_name pi =
     (pi_status pi = ''succeeded'' \<and> jsget (pi_metadata pi) ''staff_name'' = staff_name)"

definition label_match :: "jsval \<Rightarrow> payment_intent \<Rightarrow> bool" where
  "label_match terminal_label pi =
     (if truthy terminal_label
      then pi_status pi = ''succeeded'' \<and> jsget (pi_metadata pi) ''terminal_label'' = terminal_label
      else pi_status pi = ''succeeded'')"

definition reader_match :: "jsval \<Rightarrow> payment_intent \<Rightarrow> bool" where
  "reader_match terminal_id pi = (pi_status pi = ''succeeded'' \<and> readerId pi = terminal_id)"

definition report_handlers ::
  "(stripe \<Rightarrow> (string \<Rightarrow> int option) \<Rightarrow> js_object \<Rightarrow> response \<times> stripe_call list) list" where
  "report_handlers =
     [transactions_for_terminal, transactions_for_terminal_label, transactions_for_terminal_reader]"

definition reduce_amounts :: "payment_intent list \<Rightarrow> jsnum" where
  "reduce_amounts filtered =
     foldl (\<lambda>sum pi. js_add sum (to_double (pi_amount pi))) (Finite 0) filtered"

definition summary_of :: "payment_intent list \<Rightarrow> response" where
  "summary_of filtered =
     respond 200 [(''total'', json_of_num (reduce_amounts filtered)),
                  (''currency'', JString (first_currency filtered)),
                  (''count'', JNumber (int (length filtered))),
                  (''transactions'', JIntents filtered)]"

section \<open>The attribution policy as the specification words it\<close>

text \<open>
  The attribution policy in the specification's words, for its first two strategies:
  if the selector carries a terminal label and the record has one, the labels decide;
  else if the selector carries an operator name and the record has one, the names
  decide. \<open>None\<close> where neither strategy applies.
\<close>

definition spec_attribution_priority :: "js_object \<Rightarrow> payment_intent \<Rightarrow> bool option" where
  "spec_attribution_priority selector record =
     (if truthy (jsget selector ''terminal_label'')
         \<and> jsget (pi_metadata record) ''terminal_label'' \<noteq> Undefined
      then Some (jsget (pi_metadata record) ''terminal_label'' = jsget selector ''terminal_label'')
      else if truthy (jsget selector ''staff_name'')
              \<and> jsget (pi_metadata record) ''staff_name'' \<noteq> Undefined
      then Some (jsget (pi_metadata record) ''staff_name'' = jsget selector ''staff_name'')
      else None)"

section \<open>A ledger for the examples\<close>

text \<open>
  A ledger that holds a list of records and answers a list call with the records created
  in the window, at most \<open>limit\<close> of them, saying whether more remain. A create call
  with an integer amount returns a fresh record that carries the call's metadata.
\<close>

definition in_window :: "created_range \<Rightarrow> payment_intent \<Rightarrow> bool" where
  "in_window c p =
     ((case gte c of None \<Rightarrow> False | Some g \<Rightarrow> g \<le> pi_created p)
      \<and> (case lte c of None \<Rightarrow> False | Some l \<Rightarrow> pi_created p \<le> l))"

definition store_ledger :: "payment_intent list \<Rightarrow> stripe" where
  "store_ledger records =
     \<lparr>paymentIntents_create = (\<lambda>p.
          case cp_amount p of
            JNum n \<Rightarrow> Inr \<lparr>pi_id = ''pi_new'', pi_client_secret = ''pi_new_secret'',
                           pi_status = ''requires_payment_method'', pi_amount = n,
                           pi_currency = (case cp_currency p of JStr c \<Rightarrow> c | _ \<Rightarrow> []),
                           pi_created = 0, pi_metadata = cp_metadata p, pi_charges = None\<rparr>
          | _ \<Rightarrow> Inl ''Invalid integer''),
      paymentIntents_update = (\<lambda>i e. Inl ''No such payment_intent''),
      paymentIntents_list = (\<lambda>q.
          Inr \<lparr>page_data = take (lp_limit q) (filter (in_window (lp_created q)) records),
               page_has_more = (lp_limit q < length (filter (in_window (lp_created q)) records))\<rparr>)\<rparr>"

definition sale :: "string \<Rightarrow> int \<Rightarrow> string \<Rightarrow> string \<Rightarrow> int \<Rightarrow> js_object \<Rightarrow> payment_intent" where
  "sale i a c s t m =
     \<lparr>pi_id = i, pi_client_secret = i @ ''_secret'', pi_status = s, pi_amount = a,
      pi_currency = c, pi_created = t, pi_metadata = m, pi_charges = None\<rparr>"

text \<open>The date parser of the examples knows no string: they use millisecond numbers.\<close>

definition parse_none :: "string \<Rightarrow> int option" where
  "parse_none s = None"

definition alice_sale :: payment_intent where
  "alice_sale = sale ''pi_1'' 1000 ''eur'' ''succeeded'' 2
     [(''terminal_label'', JStr ''Register-2''), (''staff_name'', JStr ''Alice'')]"

definition alice_canceled :: payment_intent where
  "alice_canceled = sale ''pi_2'' 700 ''eur'' ''canceled'' 3
     [(''terminal_label'', JStr ''Register-2''), (''staff_name'', JStr ''Alice'')]"

definition alice_usd_sale :: payment_intent where
  "alice_usd_sale = sale ''pi_3'' 500 ''usd'' ''succeeded'' 4
     [(''terminal_label'', JStr ''Register-2''), (''staff_name'', JStr ''Alice'')]"

definition alice_request :: js_object where
  "alice_request = [(''start'', JNum 1000), (''end'', JNum 5000), (''staff_name'', JStr ''Alice'')]"

definition walk_in_body :: js_object where
  "walk_in_body = [(''amount'', JNum 1000), (''currency'', JStr ''eur'')]"

definition unknown_sale :: payment_intent where
  "unknown_sale = sale ''pi_new'' 1000 ''eur'' ''succeeded'' 2
     [(''terminal_label'', JStr []), (''staff_name'', JStr ''Unknown'')]"

definition unknown_request :: js_object where
  "unknown_request = [(''start'', JNum 1000), (''end'', JNum 5000), (''staff_name'', JStr ''Unknown'')]"

definition register1_alice_request :: js_object where
  "register1_alice_request =
     [(''start'', JNum 1000), (''end'', JNum 5000),
      (''terminal_label'', JStr ''Register-1''), (''staff_name'', JStr ''Alice'')]"

definition register2_request :: js_object where
  "register2_request =
     [(''start'', JNum 1000), (''end'', JNum 5000), (''terminal_label'', JStr ''Register-2'')]"

definition reader_bob_request :: js_object where
  "reader_bob_request =
     [(''start'', JNum 1000), (''end'', JNum 5000),
      (''terminal_id'', JStr ''tmr_1''), (''staff_name'', JStr ''Bob'')]"

definition window_only_request :: js_object where
  "window_only_request = [(''start'', JNum 1000), (''end'', JNum 5000)]"

definition inverted_request :: js_object where
  "inverted_request = [(''start'', JNum 5000), (''end'', JNum 1000), (''staff_name'', JStr ''Alice'')]"

text \<open>Three sales of one operator, one of them of \<open>2^53\<close> minor units.\<close>

definition huge_sale :: payment_intent where
  "huge_sale = sale ''pi_7'' 9007199254740992 ''eur'' ''succeeded'' 2 [(''staff_name'', JStr ''Alice'')]"

definition unit_sale :: payment_intent where
  "unit_sale = sale ''pi_8'' 1 ''eur'' ''succeeded'' 3 [(''staff_name'', JStr ''Alice'')]"

section \<open>What the handlers compute\<close>

lemma to_double_small:
  assumes "\<bar>x\<bar> \<le> 2 ^ 53"
  shows "to_double x = Finite x"
proof -
  have "(2::int) ^ 53 < 2 ^ 1024" by simp
  with assms have "x < 2 ^ 1024" "- (2 ^ 1024) < x" by linarith+
  with assms show ?thesis
    by (simp add: to_double_def round_double_def)
qed

lemma foldl_amounts_exact:
  assumes "0 \<le> a" "\<forall>p\<in>set xs. 0 \<le> pi_amount p" "a + sum_list (map pi_amount xs) \<le> 2 ^ 53"
  shows "foldl (\<lambda>sum pi. js_add sum (to_double (pi_amount pi))) (Finite a) xs
           = Finite (a + sum_list (map pi_amount xs))"
  using assms
proof (induction xs arbitrary: a)
  case Nil
  then show ?case by simp
next
  case (Cons x xs)
  have rest: "0 \<le> sum_list (map pi_amount xs)"
    using Cons.prems(2) by (intro sum_list_nonneg) auto
  have x0: "0 \<le> pi_amount x" using Cons.prems(2) by simp
  have xd: "to_double (pi_amount x) = Finite (pi_amount x)"
    using x0 rest Cons.prems(1,3) by (intro to_double_small) simp
  have ad: "to_double (a + pi_amount x) = Finite (a + pi_amount x)"
    using x0 rest Cons.prems(1,3) by (intro to_double_small) simp
  have "foldl (\<lambda>sum pi. js_add sum (to_double (pi_amount pi))) (Finite (a + pi_amount x)) xs
          = Finite ((a + pi_amount x) + sum_list (map pi_amount xs))"
    using Cons.prems x0 by (intro Cons.IH) (simp_all add: add.assoc)
  then show ?case
    by (simp add: xd ad add.assoc)
qed

lemma reduce_amounts_exact:
  assumes "\<forall>p\<in>set xs. 0 \<le> pi_amount p" "sum_list (map pi_amount xs) \<le> 2 ^ 53"
  shows "reduce_amounts xs = Finite (sum_list (map pi_amount xs))"
  using foldl_amounts_exact [of 0 xs] assms by (simp add: reduce_amounts_def)

lemma tft_missing:
  assumes "\<not> truthy (jsget body ''start'') \<or> \<not> truthy (jsget body ''end'')
           \<or> \<not> truthy (jsget body ''staff_name'')"
  shows "transactions_for_terminal api parse body =
           (respond 400 [(''error'', JString ''Missing start, end, or staff_name'')], [])"
  using assms unfolding transactions_for_terminal_def Let_def by auto

lemma tft_error:
  assumes "truthy (jsget body ''start'')" "truthy (jsget body ''end'')"
    "truthy (jsget body ''staff_name'')"
    "paymentIntents_list api (window_params parse body) = Inl message"
  shows "transactions_for_terminal api parse body =
           (respond 500 [(''error'', JString message)], [ListCall (window_params parse body)])"
  using assms unfolding transactions_for_terminal_def window_params_def Let_def by simp

lemma tft_ok:
  assumes "truthy (jsget body ''start'')" "truthy (jsget body ''end'')"
    "truthy (jsget body ''staff_name'')"
    "paymentIntents_list api (window_params parse body) = Inr page"
  shows "transactions_for_terminal api parse body =
           (summary_of (filter (staff_match (jsget body ''staff_name'')) (page_data page)),
            [ListCall (window_params parse body)])"
  using assms unfolding transactions_for_terminal_def window_params_def Let_def summary_of_def
    staff_match_def reduce_amounts_def
  by simp

lemma tftl_missing:
  assumes "\<not> truthy (jsget body ''start'') \<or> \<not> truthy (jsget body ''end'')
           \<or> (\<not> truthy (jsget body ''terminal_id'') \<and> \<not> truthy (jsget body ''terminal_label''))"
  shows "transactions_for_terminal_label api parse body =
           (respond 400 [(''error'', JString ''Missing start, end, or terminal_id or terminal_label'')], [])"
  using assms unfolding transactions_for_terminal_label_def Let_def by auto

lemma tftl_error:
  assumes "truthy (jsget body ''start'')" "truthy (jsget body ''end'')"
    "truthy (jsget body ''terminal_id'') \<or> truthy (jsget body ''terminal_label'')"
    "paymentIntents_list api (window_params parse body) = Inl message"
  shows "transactions_for_terminal_label api parse body =
           (respond 500 [(''error'', JString message)], [ListCall (window_params parse body)])"
  using assms unfolding transactions_for_terminal_label_def window_params_def Let_def by auto

lemma tftl_ok:
  assumes "truthy (jsget body ''start'')" "truthy (jsget body ''end'')"
    "truthy (jsget body ''terminal_id'') \<or> truthy (jsget body ''terminal_label'')"
    "paymentIntents_list api (window_params parse body) = Inr page"
  shows "transactions_for_terminal_label api parse body =
           (summary_of (filter (label_match (jsget body ''terminal_label'')) (page_data page)),
            [ListCall (window_params parse body)])"
proof -
  have f: "(\<lambda>pi. if truthy (jsget body ''terminal_label'')
                 then pi_status pi = ''succeeded''
                      \<and> jsget (pi_metadata pi) ''terminal_label'' = jsget body ''terminal_label''
                 else pi_status pi = ''succeeded'') = label_match (jsget body ''terminal_label'')"
    by (rule ext) (simp add: label_match_def)
  from assms show ?thesis
    unfolding transactions_for_terminal_label_def window_params_def Let_def summary_of_def f
      reduce_amounts_def
    by auto
qed

lemma tftr_missing:
  assumes "\<not> truthy (jsget body ''start'') \<or> \<not> truthy (jsget body ''end'')
           \<or> \<not> truthy (jsget body ''terminal_id'')"
  shows "transactions_for_terminal_reader api parse body =
           (respond 400 [(''error'', JString ''Missing start, end, or terminal_id'')], [])"
  using assms unfolding transactions_for_terminal_reader_def Let_def by auto

lemma tftr_error:
  assumes "truthy (jsget body ''start'')" "truthy (jsget body ''end'')"
    "truthy (jsget body ''terminal_id'')"
    "paymentIntents_list api (window_params parse body) = Inl message"
  shows "transactions_for_terminal_reader api parse body =
           (respond 500 [(''error'', JString message)], [ListCall (window_params parse body)])"
  using assms unfolding transactions_for_terminal_reader_def window_params_def Let_def by simp

lemma tftr_ok:
  assumes "truthy (jsget body ''start'')" "truthy (jsget body ''end'')"
    "truthy (jsget body ''terminal_id'')"
    "paymentIntents_list api (window_params parse body) = Inr page"
  shows "transactions_for_terminal_reader api parse body =
           (summary_of (filter (reader_match (jsget body ''terminal_id'')) (page_data page)),
            [ListCall (window_params parse body)])"
  using assms unfolding transactions_for_terminal_reader_def window_params_def Let_def summary_of_def
    reader_match_def reduce_amounts_def
  by simp

lemma total_of_num:
  "(case map_of [(''total'', json_of_num x), (''currency'', c), (''count'', n), (''transactions'', t)]
          ''total'' of Some (JNumber n) \<Rightarrow> Some n | _ \<Rightarrow> None) = num_value x"
  by (cases x) simp_all

lemma summary_fields:
  "res_status (summary_of F) = 200"
  "res_total (summary_of F) = num_value (reduce_amounts F)"
  "res_count (summary_of F) = Some (int (length F))"
  "res_currency (summary_of F) = Some (first_currency F)"
  "res_transactions (summary_of F) = F"
  "res_keys (summary_of F) = [''total'', ''currency'', ''count'', ''transactions'']"
  by (simp_all add: summary_of_def respond_def res_total_def res_count_def res_currency_def
      res_transactions_def res_keys_def total_of_num [simplified])

lemma summary_total_exact:
  assumes "\<forall>p\<in>set F. 0 \<le> pi_amount p" "sum_list (map pi_amount F) \<le> 2 ^ 53"
  shows "res_total (summary_of F) = Some (sum_list (map pi_amount F))"
  by (simp add: summary_fields reduce_amounts_exact [OF assms])

lemma sum_filter_le:
  fixes f :: "'a \<Rightarrow> int"
  assumes "\<forall>p\<in>set xs. 0 \<le> f p"
  shows "sum_list (map f (filter P xs)) \<le> sum_list (map f xs)"
  using assms by (induction xs) auto

lemma filtered_total_exact:
  assumes "\<forall>p\<in>set xs. 0 \<le> pi_amount p" "sum_list (map pi_amount xs) \<le> 2 ^ 53"
  shows "res_total (summary_of (filter P xs)) = Some (sum_list (map pi_amount (filter P xs)))"
proof (rule summary_total_exact)
  show "\<forall>p\<in>set (filter P xs). 0 \<le> pi_amount p"
    using assms(1) by simp
  show "sum_list (map pi_amount (filter P xs)) \<le> 2 ^ 53"
    using sum_filter_le [OF assms(1), of P] assms(2) by linarith
qed

lemma error_fields:
  "res_status (respond c [(''error'', JString m)]) = c"
  "res_total (respond c [(''error'', JString m)]) = None"
  "res_count (respond c [(''error'', JString m)]) = None"
  "res_currency (respond c [(''error'', JString m)]) = None"
  "res_transactions (respond c [(''error'', JString m)]) = []"
  by (simp_all add: respond_def res_total_def res_count_def res_currency_def
      res_transactions_def)

text \<open>Every response of a report handler is an error object or the summary of a filtered page.\<close>

lemma tft_shape:
  "(res_status (fst (transactions_for_terminal api parse body)) \<noteq> 200
      \<and> res_transactions (fst (transactions_for_terminal api parse body)) = [])
   \<or> (\<exists>xs. fst (transactions_for_terminal api parse body)
            = summary_of (filter (staff_match (jsget body ''staff_name'')) xs))"
proof -
  consider (missing) "\<not> (truthy (jsget body ''start'') \<and> truthy (jsget body ''end'') \<and> truthy (jsget body ''staff_name''))"
    | (err) m where "truthy (jsget body ''start'') \<and> truthy (jsget body ''end'') \<and> truthy (jsget body ''staff_name'')"
        "paymentIntents_list api (window_params parse body) = Inl m"
    | (ok) page where "truthy (jsget body ''start'') \<and> truthy (jsget body ''end'') \<and> truthy (jsget body ''staff_name'')"
        "paymentIntents_list api (window_params parse body) = Inr page"
    by (metis sum.exhaust)
  then show ?thesis
  proof cases
    case missing
    then have "transactions_for_terminal api parse body = (respond 400 [(''error'', JString ''Missing start, end, or staff_name'')], [])"
      by (intro tft_missing) blast
    then show ?thesis by (simp add: error_fields)
  next
    case err
    then have "transactions_for_terminal api parse body =
        (respond 500 [(''error'', JString m)], [ListCall (window_params parse body)])"
      by (intro tft_error) auto
    then show ?thesis by (simp add: error_fields)
  next
    case ok
    then have "transactions_for_terminal api parse body =
        (summary_of (filter (staff_match (jsget body ''staff_name'')) (page_data page)),
         [ListCall (window_params parse body)])"
      by (intro tft_ok) auto
    then show ?thesis by auto
  qed
qed

lemma tftl_shape:
  "(res_status (fst (transactions_for_terminal_label api parse body)) \<noteq> 200
      \<and> res_transactions (fst (transactions_for_terminal_label api parse body)) = [])
   \<or> (\<exists>xs. fst (transactions_for_terminal_label api parse body)
            = summary_of (filter (label_match (jsget body ''terminal_label'')) xs))"
proof -
  consider (missing) "\<not> (truthy (jsget body ''start'') \<and> truthy (jsget body ''end'') \<and> (truthy (jsget body ''terminal_id'') \<or> truthy (jsget body ''terminal_label'')))"
    | (err) m where "truthy (jsget body ''start'') \<and> truthy (jsget body ''end'') \<and> (truthy (jsget body ''terminal_id'') \<or> truthy (jsget body ''terminal_label''))"
        "paymentIntents_list api (window_params parse body) = Inl m"
    | (ok) page where "truthy (jsget body ''start'') \<and> truthy (jsget body ''end'') \<and> (truthy (jsget body ''terminal_id'') \<or> truthy (jsget body ''terminal_label''))"
        "paymentIntents_list api (window_params parse body) = Inr page"
    by (metis sum.exhaust)
  then show ?thesis
  proof cases
    case missing
    then have "transactions_for_terminal_label api parse body = (respond 400 [(''error'', JString ''Missing start, end, or terminal_id or terminal_label'')], [])"
      by (intro tftl_missing) blast
    then show ?thesis by (simp add: error_fields)
  next
    case err
    then have "transactions_for_terminal_label api parse body =
        (respond 500 [(''error'', JString m)], [ListCall (window_params parse body)])"
      by (intro tftl_error) auto
    then show ?thesis by (simp add: error_fields)
  next
    case ok
    then have "transactions_for_terminal_label api parse body =
        (summary_of (filter (label_match (jsget body ''terminal_label'')) (page_data page)),
         [ListCall (window_params parse body)])"
      by (intro tftl_ok) auto
    then show ?thesis by auto
  qed
qed

lemma tftr_shape:
  "(res_status (fst (transactions_for_terminal_reader api parse body)) \<noteq> 200
      \<and> res_transactions (fst (transactions_for_terminal_reader api parse body)) = [])
   \<or> (\<exists>xs. fst (transactions_for_terminal_reader api parse body)
            = summary_of (filter (reader_match (jsget body ''terminal_id'')) xs))"
proof -
  consider (missing) "\<not> (truthy (jsget body ''start'') \<and> truthy (jsget body ''end'') \<and> truthy (jsget body ''terminal_id''))"
    | (err) m where "truthy (jsget body ''start'') \<and> truthy (jsget body ''end'') \<and> truthy (jsget body ''terminal_id'')"
        "paymentIntents_list api (window_params parse body) = Inl m"
    | (ok) page where "truthy (jsget body ''start'') \<and> truthy (jsget body ''end'') \<and> truthy (jsget body ''terminal_id'')"
        "paymentIntents_list api (window_params parse body) = Inr page"
    by (metis sum.exhaust)
  then show ?thesis
  proof cases
    case missing
    then have "transactions_for_terminal_reader api parse body = (respond 400 [(''error'', JString ''Missing start, end, or terminal_id'')], [])"
      by (intro tftr_missing) blast
    then show ?thesis by (simp add: error_fields)
  next
    case err
    then have "transactions_for_terminal_reader api parse body =
        (respond 500 [(''error'', JString m)], [ListCall (window_params parse body)])"
      by (intro tftr_error) auto
    then show ?thesis by (simp add: error_fields)
  next
    case ok
    then have "transactions_for_terminal_reader api parse body =
        (summary_of (filter (reader_match (jsget body ''terminal_id'')) (page_data page)),
         [ListCall (window_params parse body)])"
      by (intro tftr_ok) auto
    then show ?thesis by auto
  qed
qed

lemma report_shape:
  assumes "h \<in> set report_handlers"
  shows "(res_status (fst (h api parse body)) \<noteq> 200 \<and> res_transactions (fst (h api parse body)) = [])
   \<or> (\<exists>P xs. (\<forall>p. P p \<longrightarrow> pi_status p = ''succeeded'') \<and> fst (h api parse body) = summary_of (filter P xs))"
proof -
  from assms consider "h = transactions_for_terminal" | "h = transactions_for_terminal_label"
    | "h = transactions_for_terminal_reader"
    by (auto simp: report_handlers_def)
  then show ?thesis
  proof cases
    case 1
    have "\<forall>p. staff_match (jsget body ''staff_name'') p \<longrightarrow> pi_status p = ''succeeded''"
      by (simp add: staff_match_def)
    then show ?thesis using tft_shape [of api parse body] unfolding 1 by blast
  next
    case 2
    have "\<forall>p. label_match (jsget body ''terminal_label'') p \<longrightarrow> pi_status p = ''succeeded''"
      by (simp add: label_match_def)
    then show ?thesis using tftl_shape [of api parse body] unfolding 2 by blast
  next
    case 3
    have "\<forall>p. reader_match (jsget body ''terminal_id'') p \<longrightarrow> pi_status p = ''succeeded''"
      by (simp add: reader_match_def)
    then show ?thesis using tftr_shape [of api parse body] unfolding 3 by blast
  qed
qed

lemma find_filter_first:
  "find P xs = (case filter P xs of [] \<Rightarrow> None | x # _ \<Rightarrow> Some x)"
  by (induction xs) simp_all

lemma tft_on_page:
  assumes "paymentIntents_list api (window_params parse body) = Inr page"
  shows "fst (transactions_for_terminal api parse body) =
     (if truthy (jsget body ''start'') \<and> truthy (jsget body ''end'') \<and> truthy (jsget body ''staff_name'')
      then summary_of (filter (staff_match (jsget body ''staff_name'')) (page_data page))
      else respond 400 [(''error'', JString ''Missing start, end, or staff_name'')])"
  using tft_ok [OF _ _ _ assms] tft_missing [of body api parse] by auto

lemma tftl_on_page:
  assumes "paymentIntents_list api (window_params parse body) = Inr page"
  shows "fst (transactions_for_terminal_label api parse body) =
     (if truthy (jsget body ''start'') \<and> truthy (jsget body ''end'')
         \<and> (truthy (jsget body ''terminal_id'') \<or> truthy (jsget body ''terminal_label''))
      then summary_of (filter (label_match (jsget body ''terminal_label'')) (page_data page))
      else respond 400 [(''error'', JString ''Missing start, end, or terminal_id or terminal_label'')])"
  using tftl_ok [OF _ _ _ assms] tftl_missing [of body api parse] by auto

lemma tftr_on_page:
  assumes "paymentIntents_list api (window_params parse body) = Inr page"
  shows "fst (transactions_for_terminal_reader api parse body) =
     (if truthy (jsget body ''start'') \<and> truthy (jsget body ''end'') \<and> truthy (jsget body ''terminal_id'')
      then summary_of (filter (reader_match (jsget body ''terminal_id'')) (page_data page))
      else respond 400 [(''error'', JString ''Missing start, end, or terminal_id'')])"
  using tftr_ok [OF _ _ _ assms] tftr_missing [of body api parse] by auto

lemma sum_filter_mset:
  fixes f :: "'a \<Rightarrow> int"
  assumes "mset xs = mset ys"
  shows "sum_list (map f (filter P xs)) = sum_list (map f (filter P ys))"
proof -
  have "mset (map f (filter P xs)) = mset (map f (filter P ys))"
    using assms by (metis mset_filter mset_map)
  then have "sum_mset (mset (map f (filter P xs))) = sum_mset (mset (map f (filter P ys)))"
    by (rule arg_cong)
  then show ?thesis
    by (simp only: sum_mset_sum_list)
qed

lemma length_filter_mset:
  assumes "mset xs = mset ys"
  shows "length (filter P xs) = length (filter P ys)"
proof -
  have "mset (filter P xs) = mset (filter P ys)"
    using assms by (metis mset_filter)
  then show ?thesis
    by (metis size_mset)
qed

lemma summary_perm:
  assumes "mset xs = mset ys"
  shows "res_count (summary_of (filter P xs)) = res_count (summary_of (filter P ys))"
  using length_filter_mset [OF assms, of P]
  by (simp add: summary_fields)

lemma summary_perm_matching:
  assumes "mset xs = mset ys"
    and "\<forall>p\<in>set (filter P ys). 0 \<le> pi_amount p"
    and "sum_list (map pi_amount (filter P ys)) \<le> 2 ^ 53"
  shows "res_total (summary_of (filter P xs)) = res_total (summary_of (filter P ys))"
proof -
  have m: "mset (filter P xs) = mset (filter P ys)"
    using assms(1) by (metis mset_filter)
  then have s: "set (filter P xs) = set (filter P ys)"
    by (rule mset_eq_setD)
  have e: "sum_list (map pi_amount (filter P xs)) = sum_list (map pi_amount (filter P ys))"
    using assms(1) by (rule sum_filter_mset)
  have "res_total (summary_of (filter P xs)) = Some (sum_list (map pi_amount (filter P xs)))"
    using assms(2,3) unfolding s [symmetric] e [symmetric] by (rule summary_total_exact)
  moreover have "res_total (summary_of (filter P ys)) = Some (sum_list (map pi_amount (filter P ys)))"
    using assms(2,3) by (rule summary_total_exact)
  ultimately show ?thesis
    using e by simp
qed

lemma first_currency_find:
  "first_currency (filter P xs) =
     (case find P xs of None \<Rightarrow> ''eur''
      | Some m \<Rightarrow> if pi_currency m \<noteq> [] then pi_currency m else ''eur'')"
  by (simp add: first_currency_def find_filter_first split: list.splits)

lemma jsget_Nil: "jsget [] k = Undefined"
  by (simp add: jsget_def)

lemma jsget_Cons: "jsget ((k, v) # obj) k' = (if k = k' then v else jsget obj k')"
  by (simp add: jsget_def)

lemma staff_match_currency:
  "staff_match s (p\<lparr>pi_currency := c\<rparr>) = staff_match s p"
  by (simp add: staff_match_def)

lemma filter_recurrency:
  "filter (staff_match s) (map (\<lambda>p. p\<lparr>pi_currency := g p\<rparr>) xs)
     = map (\<lambda>p. p\<lparr>pi_currency := g p\<rparr>) (filter (staff_match s) xs)"
  by (induction xs) (simp_all add: staff_match_currency)

lemma reduce_recurrency:
  "reduce_amounts (map (\<lambda>p. p\<lparr>pi_currency := g p\<rparr>) xs) = reduce_amounts xs"
  by (simp add: reduce_amounts_def foldl_map)

lemma staff_match_fun:
  "staff_match s = (\<lambda>pi. pi_status pi = ''succeeded'' \<and> jsget (pi_metadata pi) ''staff_name'' = s)"
  by (rule ext) (simp add: staff_match_def)

lemma label_match_fun:
  "truthy l \<Longrightarrow>
   label_match l = (\<lambda>pi. pi_status pi = ''succeeded'' \<and> jsget (pi_metadata pi) ''terminal_label'' = l)"
  "\<not> truthy l \<Longrightarrow> label_match l = (\<lambda>pi. pi_status pi = ''succeeded'')"
  by (rule ext, simp add: label_match_def)+

lemma tft_reads:
  assumes "jsget b' ''start'' = jsget b ''start''" "jsget b' ''end'' = jsget b ''end''"
    "jsget b' ''staff_name'' = jsget b ''staff_name''"
  shows "transactions_for_terminal api parse b' = transactions_for_terminal api parse b"
  unfolding transactions_for_terminal_def assms ..

section \<open>The example ledger and requests, evaluated\<close>

lemma store_list:
  "paymentIntents_list (store_ledger rs) q =
     Inr \<lparr>page_data = take (lp_limit q) (filter (in_window (lp_created q)) rs),
          page_has_more = (lp_limit q < length (filter (in_window (lp_created q)) rs))\<rparr>"
  by (simp add: store_ledger_def)

lemma alice_request_fields:
  "jsget alice_request ''start'' = JNum 1000"
  "jsget alice_request ''end'' = JNum 5000"
  "jsget alice_request ''staff_name'' = JStr ''Alice''"
  by (simp_all add: alice_request_def jsget_def)

lemma alice_window:
  "window_params parse_none alice_request = \<lparr>lp_created = \<lparr>gte = Some 1, lte = Some 5\<rparr>, lp_limit = 500\<rparr>"
  by (simp add: window_params_def alice_request_fields floor_seconds_def)

lemma alice_in_window:
  "in_window \<lparr>gte = Some 1, lte = Some 5\<rparr> alice_sale"
  "in_window \<lparr>gte = Some 1, lte = Some 5\<rparr> alice_canceled"
  "in_window \<lparr>gte = Some 1, lte = Some 5\<rparr> alice_usd_sale"
  by (simp_all add: in_window_def alice_sale_def alice_canceled_def alice_usd_sale_def sale_def)

lemma alice_match:
  "staff_match (JStr ''Alice'') alice_sale"
  "\<not> staff_match (JStr ''Alice'') alice_canceled"
  "staff_match (JStr ''Alice'') alice_usd_sale"
  by (simp_all add: staff_match_def alice_sale_def alice_canceled_def alice_usd_sale_def sale_def jsget_def)

lemma alice_report:
  "transactions_for_terminal (store_ledger [alice_canceled, alice_sale]) parse_none alice_request =
     (summary_of [alice_sale], [ListCall \<lparr>lp_created = \<lparr>gte = Some 1, lte = Some 5\<rparr>, lp_limit = 500\<rparr>])"
proof -
  have "transactions_for_terminal (store_ledger [alice_canceled, alice_sale]) parse_none alice_request =
     (summary_of (filter (staff_match (jsget alice_request ''staff_name''))
        (page_data \<lparr>page_data = take 500 (filter (in_window \<lparr>gte = Some 1, lte = Some 5\<rparr>) [alice_canceled, alice_sale]),
          page_has_more = (500 < length (filter (in_window \<lparr>gte = Some 1, lte = Some 5\<rparr>) [alice_canceled, alice_sale]))\<rparr>)),
      [ListCall (window_params parse_none alice_request)])"
    by (rule tft_ok) (simp_all add: alice_request_fields store_list alice_window)
  then show ?thesis
    by (simp add: alice_request_fields alice_window alice_in_window alice_match)
qed

lemma alice_report_on:
  "transactions_for_terminal (store_ledger rs) parse_none alice_request =
     (summary_of (filter (staff_match (JStr ''Alice''))
        (take 500 (filter (in_window \<lparr>gte = Some 1, lte = Some 5\<rparr>) rs))),
      [ListCall \<lparr>lp_created = \<lparr>gte = Some 1, lte = Some 5\<rparr>, lp_limit = 500\<rparr>])"
proof -
  have "transactions_for_terminal (store_ledger rs) parse_none alice_request =
     (summary_of (filter (staff_match (jsget alice_request ''staff_name''))
        (page_data \<lparr>page_data = take 500 (filter (in_window \<lparr>gte = Some 1, lte = Some 5\<rparr>) rs),
          page_has_more = (500 < length (filter (in_window \<lparr>gte = Some 1, lte = Some 5\<rparr>) rs))\<rparr>)),
      [ListCall (window_params parse_none alice_request)])"
    by (rule tft_ok) (simp_all add: alice_request_fields store_list alice_window)
  then show ?thesis
    by (simp add: alice_request_fields alice_window)
qed

lemma alice_amounts:
  "pi_amount alice_sale = 1000" "pi_amount alice_usd_sale = 500" "pi_amount alice_canceled = 700"
  "pi_currency alice_sale = ''eur''" "pi_currency alice_usd_sale = ''usd''"
  by (simp_all add: alice_sale_def alice_usd_sale_def alice_canceled_def sale_def)

lemma unknown_request_fields:
  "jsget unknown_request ''start'' = JNum 1000"
  "jsget unknown_request ''end'' = JNum 5000"
  "jsget unknown_request ''staff_name'' = JStr ''Unknown''"
  by (simp_all add: unknown_request_def jsget_def)

lemma unknown_window:
  "window_params parse_none unknown_request
     = \<lparr>lp_created = \<lparr>gte = Some 1, lte = Some 5\<rparr>, lp_limit = 500\<rparr>"
  by (simp add: window_params_def unknown_request_fields floor_seconds_def)

lemmas req_defs = register1_alice_request_def register2_request_def
  reader_bob_request_def window_only_request_def inverted_request_def alice_request_def
  jsget_Nil jsget_Cons

lemmas ex_defs = alice_sale_def sale_def req_defs

lemma window_1_5:
  assumes "jsget b ''start'' = JNum 1000" "jsget b ''end'' = JNum 5000"
  shows "window_params parse_none b = \<lparr>lp_created = \<lparr>gte = Some 1, lte = Some 5\<rparr>, lp_limit = 500\<rparr>"
  by (simp add: window_params_def assms floor_seconds_def)

lemma busy_page:
  "paymentIntents_list (store_ledger (replicate 501 alice_sale)) (window_params parse_none alice_request)
     = Inr \<lparr>page_data = replicate 500 alice_sale, page_has_more = True\<rparr>"
  by (simp add: store_list alice_window filter_replicate alice_in_window)

lemma busy_report:
  "transactions_for_terminal (store_ledger (replicate 501 alice_sale)) parse_none alice_request
     = (summary_of (replicate 500 alice_sale),
        [ListCall \<lparr>lp_created = \<lparr>gte = Some 1, lte = Some 5\<rparr>, lp_limit = 500\<rparr>])"
  by (simp add: alice_report_on filter_replicate alice_in_window alice_match)

text \<open>For small amounts the total is the exact sum.\<close>

lemmas summary_small = summary_fields(1) summary_total_exact summary_fields(3-6)

lemma to_double_examples:
  "to_double 9007199254740993 = Finite 9007199254740992"
  "to_double 9007199254740994 = Finite 9007199254740994"
  by (simp_all add: to_double_def round_double_def round_to_def)

lemma huge_amounts:
  "pi_amount huge_sale = 9007199254740992" "pi_amount unit_sale = 1"
  by (simp_all add: huge_sale_def unit_sale_def sale_def)

lemma reduce_huge_first:
  "reduce_amounts [huge_sale, unit_sale, unit_sale] = Finite 9007199254740992"
  by (simp add: reduce_amounts_def huge_amounts to_double_small to_double_examples)

lemma reduce_huge_last:
  "reduce_amounts [unit_sale, unit_sale, huge_sale] = Finite 9007199254740994"
  by (simp add: reduce_amounts_def huge_amounts to_double_small to_double_examples)

lemma huge_in_window:
  "in_window \<lparr>gte = Some 1, lte = Some 5\<rparr> huge_sale"
  "in_window \<lparr>gte = Some 1, lte = Some 5\<rparr> unit_sale"
  by (simp_all add: in_window_def huge_sale_def unit_sale_def sale_def)

lemma huge_match:
  "staff_match (JStr ''Alice'') huge_sale" "staff_match (JStr ''Alice'') unit_sale"
  by (simp_all add: staff_match_def huge_sale_def unit_sale_def sale_def jsget_def)

lemma huge_report_first:
  "transactions_for_terminal (store_ledger [huge_sale, unit_sale, unit_sale]) parse_none alice_request
     = (summary_of [huge_sale, unit_sale, unit_sale],
        [ListCall \<lparr>lp_created = \<lparr>gte = Some 1, lte = Some 5\<rparr>, lp_limit = 500\<rparr>])"
  by (simp add: alice_report_on huge_in_window huge_match)

lemma huge_report_last:
  "transactions_for_terminal (store_ledger [unit_sale, unit_sale, huge_sale]) parse_none alice_request
     = (summary_of [unit_sale, unit_sale, huge_sale],
        [ListCall \<lparr>lp_created = \<lparr>gte = Some 1, lte = Some 5\<rparr>, lp_limit = 500\<rparr>])"
  by (simp add: alice_report_on huge_in_window huge_match)

section \<open>Only succeeded records are reported\<close>

text \<open>
  C1. Whatever the request and whichever version of the report handler (selector
  \<^verbatim>\<open>staff_name\<close>, \<^verbatim>\<open>terminal_label\<close> or \<^verbatim>\<open>terminal_id\<close>), a record whose status
  is not \<^verbatim>\<open>succeeded\<close> is not among the returned transactions, and the count and the
  total of a summary are the length and the amount sum of exactly those transactions:
  the sum as the handler's \<^verbatim>\<open>reduce\<close> adds it, in doubles, which is the exact sum
  when the amounts are not negative and add up to at most \<open>2^53\<close>.
\<close>

theorem non_succeeded_never_reported:
  assumes "pi_status R \<noteq> ''succeeded''" "h \<in> set report_handlers"
  shows "R \<notin> set (res_transactions (fst (h api parse body)))
     \<and> (res_status (fst (h api parse body)) = 200 \<longrightarrow>
          res_count (fst (h api parse body)) = Some (int (length (res_transactions (fst (h api parse body)))))
        \<and> res_total (fst (h api parse body))
            = num_value (foldl (\<lambda>sum pi. js_add sum (to_double (pi_amount pi))) (Finite 0)
                (res_transactions (fst (h api parse body))))
        \<and> ((\<forall>p\<in>set (res_transactions (fst (h api parse body))). 0 \<le> pi_amount p)
             \<and> sum_list (map pi_amount (res_transactions (fst (h api parse body)))) \<le> 2 ^ 53 \<longrightarrow>
           res_total (fst (h api parse body))
             = Some (sum_list (map pi_amount (res_transactions (fst (h api parse body)))))))"
proof -
  from report_shape [OF assms(2), of api parse body]
  consider (error) "res_status (fst (h api parse body)) \<noteq> 200"
      "res_transactions (fst (h api parse body)) = []"
    | (summary) P xs where "\<forall>p. P p \<longrightarrow> pi_status p = ''succeeded''"
      "fst (h api parse body) = summary_of (filter P xs)"
    by blast
  then show ?thesis
  proof cases
    case error
    then show ?thesis by simp
  next
    case summary
    have "R \<notin> set (filter P xs)"
      using summary(1) assms(1) by auto
    moreover have "res_total (summary_of (filter P xs)) = Some (sum_list (map pi_amount (filter P xs)))"
      if "\<forall>p\<in>set (filter P xs). 0 \<le> pi_amount p"
        "sum_list (map pi_amount (filter P xs)) \<le> 2 ^ 53"
      using that by (rule summary_total_exact)
    ultimately show ?thesis
      unfolding summary(2)
      by (simp add: summary_fields reduce_amounts_def)
  qed
qed

theorem non_succeeded_never_reported_witness:
  "pi_status alice_canceled \<noteq> ''succeeded''
   \<and> transactions_for_terminal \<in> set report_handlers
   \<and> alice_canceled \<notin> set (res_transactions (fst
        (transactions_for_terminal (store_ledger [alice_canceled, alice_sale]) parse_none alice_request)))
   \<and> res_status (fst
        (transactions_for_terminal (store_ledger [alice_canceled, alice_sale]) parse_none alice_request)) = 200
   \<and> res_count (fst
        (transactions_for_terminal (store_ledger [alice_canceled, alice_sale]) parse_none alice_request)) = Some 1
   \<and> res_total (fst
        (transactions_for_terminal (store_ledger [alice_canceled, alice_sale]) parse_none alice_request)) = Some 1000"
proof -
  have s: "pi_status alice_canceled \<noteq> ''succeeded''"
    by (simp add: alice_canceled_def sale_def)
  have h: "transactions_for_terminal \<in> set report_handlers"
    by (simp add: report_handlers_def)
  have a: "pi_amount alice_sale = 1000"
    by (simp add: alice_sale_def sale_def)
  show ?thesis
    using non_succeeded_never_reported [OF s h, of "store_ledger [alice_canceled, alice_sale]" parse_none alice_request] s h
    by (simp add: alice_report summary_small a)
qed

section \<open>Attribution: one strategy per handler\<close>

text \<open>
  C2, as stated, asks for a chain: match on the terminal label when request and record
  both have one, else on the operator name. No version of the handler has such a chain.
  The handler of \<^verbatim>\<open>server.js\<close> reports a record whose label differs from the
  request's, because the operator name agrees, and rejects a request that carries only a
  label; the handler of the earlier version rejects a request that carries only an
  operator name, and with a \<^verbatim>\<open>terminal_id\<close> it reports a record of another operator.
\<close>

theorem priority_chain_counterexample:
  "pi_status alice_sale = ''succeeded''
   \<and> spec_attribution_priority register1_alice_request alice_sale = Some False
   \<and> alice_sale \<in> set (res_transactions (fst
        (transactions_for_terminal (store_ledger [alice_sale]) parse_none register1_alice_request)))
   \<and> spec_attribution_priority register2_request alice_sale = Some True
   \<and> transactions_for_terminal (store_ledger [alice_sale]) parse_none register2_request
       = (respond 400 [(''error'', JString ''Missing start, end, or staff_name'')], [])
   \<and> spec_attribution_priority alice_request alice_sale = Some True
   \<and> transactions_for_terminal_label (store_ledger [alice_sale]) parse_none alice_request
       = (respond 400 [(''error'', JString ''Missing start, end, or terminal_id or terminal_label'')], [])
   \<and> spec_attribution_priority reader_bob_request alice_sale = Some False
   \<and> alice_sale \<in> set (res_transactions (fst
        (transactions_for_terminal_label (store_ledger [alice_sale]) parse_none reader_bob_request)))"
proof -
  have s: "pi_status alice_sale = ''succeeded''"
    by (simp add: ex_defs)
  have p: "spec_attribution_priority register1_alice_request alice_sale = Some False"
    "spec_attribution_priority register2_request alice_sale = Some True"
    "spec_attribution_priority alice_request alice_sale = Some True"
    "spec_attribution_priority reader_bob_request alice_sale = Some False"
    by (simp_all add: spec_attribution_priority_def ex_defs)
  have l: "paymentIntents_list (store_ledger [alice_sale]) \<lparr>lp_created = \<lparr>gte = Some 1, lte = Some 5\<rparr>, lp_limit = 500\<rparr>
      = Inr \<lparr>page_data = [alice_sale], page_has_more = False\<rparr>"
    by (simp add: store_list alice_in_window)
  have a: "transactions_for_terminal (store_ledger [alice_sale]) parse_none register1_alice_request
      = (summary_of (filter (staff_match (jsget register1_alice_request ''staff_name''))
           (page_data \<lparr>page_data = [alice_sale], page_has_more = False\<rparr>)),
         [ListCall (window_params parse_none register1_alice_request)])"
    by (rule tft_ok) (simp_all add: window_1_5 l req_defs)
  have a': "alice_sale \<in> set (res_transactions (fst
        (transactions_for_terminal (store_ledger [alice_sale]) parse_none register1_alice_request)))"
    unfolding a by (simp add: summary_fields staff_match_def ex_defs)
  have b: "transactions_for_terminal (store_ledger [alice_sale]) parse_none register2_request
       = (respond 400 [(''error'', JString ''Missing start, end, or staff_name'')], [])"
    by (rule tft_missing) (simp add: ex_defs)
  have c: "transactions_for_terminal_label (store_ledger [alice_sale]) parse_none alice_request
       = (respond 400 [(''error'', JString ''Missing start, end, or terminal_id or terminal_label'')], [])"
    by (rule tftl_missing) (simp add: ex_defs)
  have d: "transactions_for_terminal_label (store_ledger [alice_sale]) parse_none reader_bob_request
      = (summary_of (filter (label_match (jsget reader_bob_request ''terminal_label''))
           (page_data \<lparr>page_data = [alice_sale], page_has_more = False\<rparr>)),
         [ListCall (window_params parse_none reader_bob_request)])"
    by (rule tftl_ok) (simp_all add: window_1_5 l req_defs)
  have d': "alice_sale \<in> set (res_transactions (fst
        (transactions_for_terminal_label (store_ledger [alice_sale]) parse_none reader_bob_request)))"
    unfolding d by (simp add: summary_fields label_match_def ex_defs)
  from s p a' b c d' show ?thesis by simp
qed

text \<open>
  C2, amended. Each version applies the one strategy it was written for. The handler
  of \<^verbatim>\<open>server.js\<close> returns exactly the succeeded records of the page whose metadata
  \<^verbatim>\<open>staff_name\<close> equals the request's, rejects a request without \<^verbatim>\<open>staff_name\<close>,
  and reads nothing of the request but \<^verbatim>\<open>start\<close>, \<^verbatim>\<open>end\<close> and \<^verbatim>\<open>staff_name\<close>. The
  earlier handler, given a non-empty \<^verbatim>\<open>terminal_label\<close>, returns exactly the succeeded
  records whose metadata \<^verbatim>\<open>terminal_label\<close> equals it.
\<close>

theorem each_handler_one_strategy:
  "(truthy (jsget body ''start'') \<and> truthy (jsget body ''end'') \<and> truthy (jsget body ''staff_name'')
      \<and> paymentIntents_list api (window_params parse body) = Inr page \<longrightarrow>
      res_transactions (fst (transactions_for_terminal api parse body))
        = filter (\<lambda>pi. pi_status pi = ''succeeded''
                       \<and> jsget (pi_metadata pi) ''staff_name'' = jsget body ''staff_name'')
            (page_data page))
   \<and> (\<not> truthy (jsget body ''staff_name'') \<longrightarrow>
        transactions_for_terminal api parse body
          = (respond 400 [(''error'', JString ''Missing start, end, or staff_name'')], []))
   \<and> (jsget body' ''start'' = jsget body ''start'' \<and> jsget body' ''end'' = jsget body ''end''
        \<and> jsget body' ''staff_name'' = jsget body ''staff_name'' \<longrightarrow>
        transactions_for_terminal api parse body' = transactions_for_terminal api parse body)
   \<and> (truthy (jsget body ''start'') \<and> truthy (jsget body ''end'') \<and> truthy (jsget body ''terminal_label'')
      \<and> paymentIntents_list api (window_params parse body) = Inr page \<longrightarrow>
      res_transactions (fst (transactions_for_terminal_label api parse body))
        = filter (\<lambda>pi. pi_status pi = ''succeeded''
                       \<and> jsget (pi_metadata pi) ''terminal_label'' = jsget body ''terminal_label'')
            (page_data page))"
proof -
  have a: "res_transactions (fst (transactions_for_terminal api parse body))
        = filter (\<lambda>pi. pi_status pi = ''succeeded''
                       \<and> jsget (pi_metadata pi) ''staff_name'' = jsget body ''staff_name'')
            (page_data page)"
    if "truthy (jsget body ''start'')" "truthy (jsget body ''end'')" "truthy (jsget body ''staff_name'')"
      "paymentIntents_list api (window_params parse body) = Inr page"
    using tft_ok [OF that] by (simp add: summary_fields staff_match_fun)
  have b: "transactions_for_terminal api parse body
          = (respond 400 [(''error'', JString ''Missing start, end, or staff_name'')], [])"
    if "\<not> truthy (jsget body ''staff_name'')"
    using that by (intro tft_missing) simp
  have c: "transactions_for_terminal api parse body' = transactions_for_terminal api parse body"
    if "jsget body' ''start'' = jsget body ''start''" "jsget body' ''end'' = jsget body ''end''"
      "jsget body' ''staff_name'' = jsget body ''staff_name''"
    using that by (rule tft_reads)
  have d: "res_transactions (fst (transactions_for_terminal_label api parse body))
        = filter (\<lambda>pi. pi_status pi = ''succeeded''
                       \<and> jsget (pi_metadata pi) ''terminal_label'' = jsget body ''terminal_label'')
            (page_data page)"
    if "truthy (jsget body ''start'')" "truthy (jsget body ''end'')" "truthy (jsget body ''terminal_label'')"
      "paymentIntents_list api (window_params parse body) = Inr page"
    using tftl_ok [OF that(1) that(2) disjI2 [OF that(3)] that(4)] that(3)
    by (simp add: summary_fields label_match_fun)
  from a b c d show ?thesis by blast
qed

theorem each_handler_one_strategy_witness:
  "truthy (jsget register1_alice_request ''start'') \<and> truthy (jsget register1_alice_request ''end'')
   \<and> truthy (jsget register1_alice_request ''staff_name'')
   \<and> truthy (jsget register1_alice_request ''terminal_label'')
   \<and> \<not> truthy (jsget register2_request ''staff_name'')
   \<and> paymentIntents_list (store_ledger [alice_sale]) (window_params parse_none register1_alice_request)
       = Inr \<lparr>page_data = [alice_sale], page_has_more = False\<rparr>
   \<and> res_transactions (fst
        (transactions_for_terminal (store_ledger [alice_sale]) parse_none register1_alice_request))
       = [alice_sale]
   \<and> res_transactions (fst
        (transactions_for_terminal_label (store_ledger [alice_sale]) parse_none register1_alice_request))
       = []
   \<and> transactions_for_terminal (store_ledger [alice_sale]) parse_none register2_request
       = (respond 400 [(''error'', JString ''Missing start, end, or staff_name'')], [])
   \<and> transactions_for_terminal (store_ledger [alice_sale]) parse_none alice_request
       = transactions_for_terminal (store_ledger [alice_sale]) parse_none register1_alice_request"
proof -
  have t: "truthy (jsget register1_alice_request ''start'')" "truthy (jsget register1_alice_request ''end'')"
    "truthy (jsget register1_alice_request ''staff_name'')"
    "truthy (jsget register1_alice_request ''terminal_label'')"
    and n: "\<not> truthy (jsget register2_request ''staff_name'')"
    by (simp_all add: req_defs)
  have l: "paymentIntents_list (store_ledger [alice_sale]) (window_params parse_none register1_alice_request)
       = Inr \<lparr>page_data = [alice_sale], page_has_more = False\<rparr>"
    by (simp add: store_list alice_in_window window_1_5 req_defs)
  have e: "jsget alice_request ''start'' = jsget register1_alice_request ''start''"
    "jsget alice_request ''end'' = jsget register1_alice_request ''end''"
    "jsget alice_request ''staff_name'' = jsget register1_alice_request ''staff_name''"
    by (simp_all add: req_defs)
  note w1 = each_handler_one_strategy [of register1_alice_request "store_ledger [alice_sale]" parse_none
      "\<lparr>page_data = [alice_sale], page_has_more = False\<rparr>" alice_request]
  note w2 = each_handler_one_strategy [of register2_request "store_ledger [alice_sale]" parse_none
      "\<lparr>page_data = [alice_sale], page_has_more = False\<rparr>" alice_request]
  have f: "filter (\<lambda>pi. pi_status pi = ''succeeded''
                 \<and> jsget (pi_metadata pi) ''staff_name'' = jsget register1_alice_request ''staff_name'')
             [alice_sale] = [alice_sale]"
    "filter (\<lambda>pi. pi_status pi = ''succeeded''
                 \<and> jsget (pi_metadata pi) ''terminal_label'' = jsget register1_alice_request ''terminal_label'')
             [alice_sale] = []"
    by (simp_all add: ex_defs)
  from w1 t l e f have
    "res_transactions (fst
        (transactions_for_terminal (store_ledger [alice_sale]) parse_none register1_alice_request))
       = [alice_sale]"
    "res_transactions (fst
        (transactions_for_terminal_label (store_ledger [alice_sale]) parse_none register1_alice_request))
       = []"
    "transactions_for_terminal (store_ledger [alice_sale]) parse_none alice_request
       = transactions_for_terminal (store_ledger [alice_sale]) parse_none register1_alice_request"
    by simp_all
  moreover from w2 n have "transactions_for_terminal (store_ledger [alice_sale]) parse_none register2_request
       = (respond 400 [(''error'', JString ''Missing start, end, or staff_name'')], [])"
    by simp
  ultimately show ?thesis using t n l by simp
qed

section \<open>A request without selector\<close>

text \<open>
  C3, as stated, lets a request with a window and no selector succeed over all succeeded
  records. Every version of the handler answers such a request with 400, though a
  succeeded record lies in the window.
\<close>

theorem no_selector_counterexample:
  "pi_status alice_sale = ''succeeded''
   \<and> window_params parse_none window_only_request
       = \<lparr>lp_created = \<lparr>gte = Some 1, lte = Some 5\<rparr>, lp_limit = 500\<rparr>
   \<and> in_window \<lparr>gte = Some 1, lte = Some 5\<rparr> alice_sale
   \<and> transactions_for_terminal (store_ledger [alice_sale]) parse_none window_only_request
       = (respond 400 [(''error'', JString ''Missing start, end, or staff_name'')], [])
   \<and> transactions_for_terminal_label (store_ledger [alice_sale]) parse_none window_only_request
       = (respond 400 [(''error'', JString ''Missing start, end, or terminal_id or terminal_label'')], [])
   \<and> transactions_for_terminal_reader (store_ledger [alice_sale]) parse_none window_only_request
       = (respond 400 [(''error'', JString ''Missing start, end, or terminal_id'')], [])"
proof -
  have "pi_status alice_sale = ''succeeded''"
    by (simp add: ex_defs)
  moreover have "window_params parse_none window_only_request
       = \<lparr>lp_created = \<lparr>gte = Some 1, lte = Some 5\<rparr>, lp_limit = 500\<rparr>"
    by (simp add: window_1_5 req_defs)
  moreover have "transactions_for_terminal (store_ledger [alice_sale]) parse_none window_only_request
       = (respond 400 [(''error'', JString ''Missing start, end, or staff_name'')], [])"
    by (rule tft_missing) (simp add: req_defs)
  moreover have "transactions_for_terminal_label (store_ledger [alice_sale]) parse_none window_only_request
       = (respond 400 [(''error'', JString ''Missing start, end, or terminal_id or terminal_label'')], [])"
    by (rule tftl_missing) (simp add: req_defs)
  moreover have "transactions_for_terminal_reader (store_ledger [alice_sale]) parse_none window_only_request
       = (respond 400 [(''error'', JString ''Missing start, end, or terminal_id'')], [])"
    by (rule tftr_missing) (simp add: req_defs)
  ultimately show ?thesis
    by (simp add: alice_in_window)
qed

text \<open>
  C3, amended. A request without identity selector is rejected with status 400 and no
  call to the ledger: \<^verbatim>\<open>server.js\<close> requires \<^verbatim>\<open>staff_name\<close>, the earlier versions
  require \<^verbatim>\<open>terminal_id\<close> or \<^verbatim>\<open>terminal_label\<close>, respectively \<^verbatim>\<open>terminal_id\<close>. The
  fallback to all succeeded records exists in the \<^verbatim>\<open>terminal_label\<close> version only, for
  a request that carries \<^verbatim>\<open>terminal_id\<close> and no \<^verbatim>\<open>terminal_label\<close>.
\<close>

theorem no_selector_is_rejected:
  "(\<not> truthy (jsget body ''staff_name'') \<longrightarrow>
        transactions_for_terminal api parse body
          = (respond 400 [(''error'', JString ''Missing start, end, or staff_name'')], []))
   \<and> (\<not> truthy (jsget body ''terminal_id'') \<and> \<not> truthy (jsget body ''terminal_label'') \<longrightarrow>
        transactions_for_terminal_label api parse body
          = (respond 400 [(''error'', JString ''Missing start, end, or terminal_id or terminal_label'')], []))
   \<and> (\<not> truthy (jsget body ''terminal_id'') \<longrightarrow>
        transactions_for_terminal_reader api parse body
          = (respond 400 [(''error'', JString ''Missing start, end, or terminal_id'')], []))
   \<and> (truthy (jsget body ''start'') \<and> truthy (jsget body ''end'') \<and> truthy (jsget body ''terminal_id'')
        \<and> \<not> truthy (jsget body ''terminal_label'')
        \<and> paymentIntents_list api (window_params parse body) = Inr page \<longrightarrow>
        res_status (fst (transactions_for_terminal_label api parse body)) = 200
        \<and> res_transactions (fst (transactions_for_terminal_label api parse body))
            = filter (\<lambda>pi. pi_status pi = ''succeeded'') (page_data page))"
proof -
  have a: "transactions_for_terminal api parse body
          = (respond 400 [(''error'', JString ''Missing start, end, or staff_name'')], [])"
    if "\<not> truthy (jsget body ''staff_name'')"
    using that by (intro tft_missing) simp
  have b: "transactions_for_terminal_label api parse body
          = (respond 400 [(''error'', JString ''Missing start, end, or terminal_id or terminal_label'')], [])"
    if "\<not> truthy (jsget body ''terminal_id'')" "\<not> truthy (jsget body ''terminal_label'')"
    using that by (intro tftl_missing) simp
  have c: "transactions_for_terminal_reader api parse body
          = (respond 400 [(''error'', JString ''Missing start, end, or terminal_id'')], [])"
    if "\<not> truthy (jsget body ''terminal_id'')"
    using that by (intro tftr_missing) simp
  have d: "res_status (fst (transactions_for_terminal_label api parse body)) = 200
        \<and> res_transactions (fst (transactions_for_terminal_label api parse body))
            = filter (\<lambda>pi. pi_status pi = ''succeeded'') (page_data page)"
    if "truthy (jsget body ''start'')" "truthy (jsget body ''end'')" "truthy (jsget body ''terminal_id'')"
      "\<not> truthy (jsget body ''terminal_label'')"
      "paymentIntents_list api (window_params parse body) = Inr page"
    using tftl_ok [OF that(1) that(2) disjI1 [OF that(3)] that(5)] that(4)
    by (simp add: summary_fields label_match_fun)
  from a b c d show ?thesis by blast
qed

theorem no_selector_is_rejected_witness:
  "\<not> truthy (jsget window_only_request ''staff_name'')
   \<and> \<not> truthy (jsget window_only_request ''terminal_id'')
   \<and> \<not> truthy (jsget window_only_request ''terminal_label'')
   \<and> transactions_for_terminal (store_ledger [alice_sale]) parse_none window_only_request
       = (respond 400 [(''error'', JString ''Missing start, end, or staff_name'')], [])
   \<and> transactions_for_terminal_label (store_ledger [alice_sale]) parse_none window_only_request
       = (respond 400 [(''error'', JString ''Missing start, end, or terminal_id or terminal_label'')], [])
   \<and> transactions_for_terminal_reader (store_ledger [alice_sale]) parse_none window_only_request
       = (respond 400 [(''error'', JString ''Missing start, end, or terminal_id'')], [])
   \<and> truthy (jsget reader_bob_request ''start'') \<and> truthy (jsget reader_bob_request ''end'')
   \<and> truthy (jsget reader_bob_request ''terminal_id'')
   \<and> \<not> truthy (jsget reader_bob_request ''terminal_label'')
   \<and> paymentIntents_list (store_ledger [alice_canceled, alice_sale])
        (window_params parse_none reader_bob_request)
       = Inr \<lparr>page_data = [alice_canceled, alice_sale], page_has_more = False\<rparr>
   \<and> res_transactions (fst (transactions_for_terminal_label (store_ledger [alice_canceled, alice_sale])
        parse_none reader_bob_request)) = [alice_sale]"
proof -
  have n: "\<not> truthy (jsget window_only_request ''staff_name'')"
    "\<not> truthy (jsget window_only_request ''terminal_id'')"
    "\<not> truthy (jsget window_only_request ''terminal_label'')"
    and t: "truthy (jsget reader_bob_request ''start'')" "truthy (jsget reader_bob_request ''end'')"
    "truthy (jsget reader_bob_request ''terminal_id'')"
    "\<not> truthy (jsget reader_bob_request ''terminal_label'')"
    by (simp_all add: req_defs)
  have l: "paymentIntents_list (store_ledger [alice_canceled, alice_sale])
        (window_params parse_none reader_bob_request)
       = Inr \<lparr>page_data = [alice_canceled, alice_sale], page_has_more = False\<rparr>"
    by (simp add: store_list alice_in_window window_1_5 req_defs)
  have f: "filter (\<lambda>pi. pi_status pi = ''succeeded'') [alice_canceled, alice_sale] = [alice_sale]"
    by (simp add: alice_canceled_def alice_sale_def sale_def)
  note w1 = no_selector_is_rejected [of window_only_request "store_ledger [alice_sale]" parse_none
      "\<lparr>page_data = [alice_sale], page_has_more = False\<rparr>"]
  note w2 = no_selector_is_rejected [of reader_bob_request "store_ledger [alice_canceled, alice_sale]"
      parse_none "\<lparr>page_data = [alice_canceled, alice_sale], page_has_more = False\<rparr>"]
  from w1 n have
    "transactions_for_terminal (store_ledger [alice_sale]) parse_none window_only_request
       = (respond 400 [(''error'', JString ''Missing start, end, or staff_name'')], [])"
    "transactions_for_terminal_label (store_ledger [alice_sale]) parse_none window_only_request
       = (respond 400 [(''error'', JString ''Missing start, end, or terminal_id or terminal_label'')], [])"
    "transactions_for_terminal_reader (store_ledger [alice_sale]) parse_none window_only_request
       = (respond 400 [(''error'', JString ''Missing start, end, or terminal_id'')], [])"
    by simp_all
  moreover from w2 t l f have
    "res_transactions (fst (transactions_for_terminal_label (store_ledger [alice_canceled, alice_sale])
        parse_none reader_bob_request)) = [alice_sale]"
    by simp
  ultimately show ?thesis using n t l by simp
qed

section \<open>An inverted window\<close>

text \<open>
  C4, as stated, rejects a window whose start lies after its end before any ledger
  call. The handler compares nothing: for start 5000 ms and end 1000 ms it sends
  \<^verbatim>\<open>{gte: 5, lte: 1}\<close> to the ledger and answers 200 with the summary of the page.
\<close>

theorem inverted_window_counterexample:
  "floor_seconds (Date_getTime parse_none (jsget inverted_request ''start'')) = Some 5
   \<and> floor_seconds (Date_getTime parse_none (jsget inverted_request ''end'')) = Some 1
   \<and> (1::int) < 5
   \<and> transactions_for_terminal (store_ledger [alice_sale]) parse_none inverted_request
       = (respond 200 [(''total'', JNumber 0), (''currency'', JString ''eur''),
                       (''count'', JNumber 0), (''transactions'', JIntents [])],
          [ListCall \<lparr>lp_created = \<lparr>gte = Some 5, lte = Some 1\<rparr>, lp_limit = 500\<rparr>])"
proof -
  have c: "floor_seconds (Date_getTime parse_none (jsget inverted_request ''start'')) = Some 5"
    "floor_seconds (Date_getTime parse_none (jsget inverted_request ''end'')) = Some 1"
    by (simp_all add: req_defs floor_seconds_def)
  have w: "window_params parse_none inverted_request
             = \<lparr>lp_created = \<lparr>gte = Some 5, lte = Some 1\<rparr>, lp_limit = 500\<rparr>"
    by (simp add: window_params_def c)
  have l: "paymentIntents_list (store_ledger [alice_sale]) (window_params parse_none inverted_request)
             = Inr \<lparr>page_data = [], page_has_more = False\<rparr>"
    by (simp add: w store_list in_window_def alice_sale_def sale_def)
  have "transactions_for_terminal (store_ledger [alice_sale]) parse_none inverted_request
      = (summary_of (filter (staff_match (jsget inverted_request ''staff_name''))
           (page_data \<lparr>page_data = [], page_has_more = False\<rparr>)),
         [ListCall (window_params parse_none inverted_request)])"
    by (rule tft_ok) (simp_all add: l, simp_all add: req_defs)
  then have "transactions_for_terminal (store_ledger [alice_sale]) parse_none inverted_request
       = (respond 200 [(''total'', JNumber 0), (''currency'', JString ''eur''),
                       (''count'', JNumber 0), (''transactions'', JIntents [])],
          [ListCall \<lparr>lp_created = \<lparr>gte = Some 5, lte = Some 1\<rparr>, lp_limit = 500\<rparr>])"
    by (simp add: w summary_of_def first_currency_def reduce_amounts_def)
  with c show ?thesis by simp
qed

text \<open>
  C4, amended. For every request with non-empty \<^verbatim>\<open>start\<close>, \<^verbatim>\<open>end\<close> and
  \<^verbatim>\<open>staff_name\<close> whose dates convert to milliseconds, the handler issues exactly one
  list call, with the bounds floor-divided to seconds and limit 500, in whatever order
  the bounds are; it never answers 400 for the order of the bounds.
\<close>

theorem window_sent_without_order_check:
  assumes "truthy (jsget body ''start'')" "truthy (jsget body ''end'')"
    "truthy (jsget body ''staff_name'')"
    and "Date_getTime parse (jsget body ''start'') = Some start_ms"
    and "Date_getTime parse (jsget body ''end'') = Some end_ms"
  shows "snd (transactions_for_terminal api parse body)
           = [ListCall \<lparr>lp_created = \<lparr>gte = Some (start_ms div 1000), lte = Some (end_ms div 1000)\<rparr>,
                        lp_limit = 500\<rparr>]
       \<and> res_status (fst (transactions_for_terminal api parse body)) \<noteq> 400"
proof -
  have w: "window_params parse body
             = \<lparr>lp_created = \<lparr>gte = Some (start_ms div 1000), lte = Some (end_ms div 1000)\<rparr>,
                lp_limit = 500\<rparr>"
    by (simp add: window_params_def floor_seconds_def assms(4,5))
  consider (err) m where "paymentIntents_list api (window_params parse body) = Inl m"
    | (ok) page where "paymentIntents_list api (window_params parse body) = Inr page"
    by (metis sum.exhaust)
  then show ?thesis
  proof cases
    case err
    from tft_error [OF assms(1-3) err] show ?thesis
      by (simp add: w error_fields)
  next
    case ok
    from tft_ok [OF assms(1-3) ok] show ?thesis
      by (simp add: w summary_fields)
  qed
qed

theorem window_sent_without_order_check_witness:
  "truthy (jsget inverted_request ''start'') \<and> truthy (jsget inverted_request ''end'')
   \<and> truthy (jsget inverted_request ''staff_name'')
   \<and> Date_getTime parse_none (jsget inverted_request ''start'') = Some 5000
   \<and> Date_getTime parse_none (jsget inverted_request ''end'') = Some 1000
   \<and> snd (transactions_for_terminal (store_ledger [alice_sale]) parse_none inverted_request)
       = [ListCall \<lparr>lp_created = \<lparr>gte = Some 5, lte = Some 1\<rparr>, lp_limit = 500\<rparr>]
   \<and> res_status (fst (transactions_for_terminal (store_ledger [alice_sale]) parse_none inverted_request))
       \<noteq> 400"
proof -
  have t: "truthy (jsget inverted_request ''start'')" "truthy (jsget inverted_request ''end'')"
    "truthy (jsget inverted_request ''staff_name'')"
    and d: "Date_getTime parse_none (jsget inverted_request ''start'') = Some 5000"
    "Date_getTime parse_none (jsget inverted_request ''end'') = Some 1000"
    by (simp_all add: req_defs)
  from window_sent_without_order_check [OF t d, of "store_ledger [alice_sale]"] t d
  show ?thesis by simp
qed

section \<open>A full page\<close>

text \<open>
  C5, as stated, has a full page either followed by further pages or flagged as
  truncated. The handler does neither: with 501 matching records in the window the
  ledger returns 500 and says that more remain, and the handler, after its single list
  call, reports count 500 and total 500000 of 501000 in an object without a
  \<^verbatim>\<open>truncated\<close> field.
\<close>

theorem full_page_counterexample:
  "paymentIntents_list (store_ledger (replicate 501 alice_sale)) (window_params parse_none alice_request)
     = Inr \<lparr>page_data = replicate 500 alice_sale, page_has_more = True\<rparr>
   \<and> length (replicate 500 alice_sale) = 500
   \<and> snd (transactions_for_terminal (store_ledger (replicate 501 alice_sale)) parse_none alice_request)
       = [ListCall \<lparr>lp_created = \<lparr>gte = Some 1, lte = Some 5\<rparr>, lp_limit = 500\<rparr>]
   \<and> res_status (fst (transactions_for_terminal (store_ledger (replicate 501 alice_sale))
        parse_none alice_request)) = 200
   \<and> res_keys (fst (transactions_for_terminal (store_ledger (replicate 501 alice_sale))
        parse_none alice_request)) = [''total'', ''currency'', ''count'', ''transactions'']
   \<and> map_of (res_json (fst (transactions_for_terminal (store_ledger (replicate 501 alice_sale))
        parse_none alice_request))) ''truncated'' = None
   \<and> res_count (fst (transactions_for_terminal (store_ledger (replicate 501 alice_sale))
        parse_none alice_request)) = Some 500
   \<and> res_total (fst (transactions_for_terminal (store_ledger (replicate 501 alice_sale))
        parse_none alice_request)) = Some 500000
   \<and> sum_list (map pi_amount (filter (staff_match (JStr ''Alice'')) (replicate 501 alice_sale))) = 501000"
  by (simp add: busy_page busy_report summary_small alice_amounts filter_replicate alice_match
      sum_list_replicate)
    (simp add: summary_of_def respond_def)

text \<open>
  C5, amended. For every report request that reaches the ledger and gets a page, the
  handler issues exactly one list call with limit 500 and summarises that page alone:
  the response has the fields total, currency, count and transactions and no
  \<^verbatim>\<open>truncated\<close> field, whether or not the page is full or more records remain. The
  total is the sum over the page's matching records as the \<^verbatim>\<open>reduce\<close> adds it, in
  doubles: the exact sum when the page's amounts are not negative and add up to at most
  \<open>2^53\<close>.
\<close>

theorem single_page_without_flag:
  assumes "truthy (jsget body ''start'')" "truthy (jsget body ''end'')"
    "truthy (jsget body ''staff_name'')"
    and "paymentIntents_list api (window_params parse body) = Inr page"
  shows "snd (transactions_for_terminal api parse body) = [ListCall (window_params parse body)]
       \<and> lp_limit (window_params parse body) = 500
       \<and> res_keys (fst (transactions_for_terminal api parse body))
           = [''total'', ''currency'', ''count'', ''transactions'']
       \<and> map_of (res_json (fst (transactions_for_terminal api parse body))) ''truncated'' = None
       \<and> res_transactions (fst (transactions_for_terminal api parse body))
           = filter (staff_match (jsget body ''staff_name'')) (page_data page)
       \<and> res_total (fst (transactions_for_terminal api parse body))
           = num_value (foldl (\<lambda>sum pi. js_add sum (to_double (pi_amount pi))) (Finite 0)
               (filter (staff_match (jsget body ''staff_name'')) (page_data page)))
       \<and> ((\<forall>p\<in>set (page_data page). 0 \<le> pi_amount p)
            \<and> sum_list (map pi_amount (page_data page)) \<le> 2 ^ 53 \<longrightarrow>
          res_total (fst (transactions_for_terminal api parse body))
            = Some (sum_list (map pi_amount
                (filter (staff_match (jsget body ''staff_name'')) (page_data page)))))
       \<and> res_count (fst (transactions_for_terminal api parse body))
           = Some (int (length (filter (staff_match (jsget body ''staff_name'')) (page_data page))))"
proof -
  have "map_of (res_json (summary_of F)) ''truncated'' = None" for F
    by (simp add: summary_of_def respond_def)
  moreover have "res_total (summary_of (filter (staff_match (jsget body ''staff_name'')) (page_data page)))
      = Some (sum_list (map pi_amount
          (filter (staff_match (jsget body ''staff_name'')) (page_data page))))"
    if "\<forall>p\<in>set (page_data page). 0 \<le> pi_amount p"
      "sum_list (map pi_amount (page_data page)) \<le> 2 ^ 53"
    using that by (rule filtered_total_exact)
  ultimately show ?thesis
    by (simp add: tft_ok [OF assms] summary_fields window_params_def reduce_amounts_def)
qed

theorem single_page_without_flag_witness:
  "truthy (jsget alice_request ''start'') \<and> truthy (jsget alice_request ''end'')
   \<and> truthy (jsget alice_request ''staff_name'')
   \<and> paymentIntents_list (store_ledger (replicate 501 alice_sale)) (window_params parse_none alice_request)
     = Inr \<lparr>page_data = replicate 500 alice_sale, page_has_more = True\<rparr>
   \<and> snd (transactions_for_terminal (store_ledger (replicate 501 alice_sale)) parse_none alice_request)
       = [ListCall \<lparr>lp_created = \<lparr>gte = Some 1, lte = Some 5\<rparr>, lp_limit = 500\<rparr>]
   \<and> map_of (res_json (fst (transactions_for_terminal (store_ledger (replicate 501 alice_sale))
        parse_none alice_request))) ''truncated'' = None
   \<and> res_total (fst (transactions_for_terminal (store_ledger (replicate 501 alice_sale))
        parse_none alice_request)) = Some 500000"
proof -
  have t: "truthy (jsget alice_request ''start'')" "truthy (jsget alice_request ''end'')"
    "truthy (jsget alice_request ''staff_name'')"
    by (simp_all add: alice_request_fields)
  note w = single_page_without_flag [OF t busy_page]
  have b: "(\<forall>p\<in>set (page_data \<lparr>page_data = replicate 500 alice_sale, page_has_more = True\<rparr>).
              0 \<le> pi_amount p)
           \<and> sum_list (map pi_amount
                (page_data \<lparr>page_data = replicate 500 alice_sale, page_has_more = True\<rparr>)) \<le> 2 ^ 53"
    by (simp add: alice_amounts sum_list_replicate)
  note c = w [THEN conjunct1] w [THEN conjunct2, THEN conjunct2, THEN conjunct2, THEN conjunct1]
    w [THEN conjunct2, THEN conjunct2, THEN conjunct2, THEN conjunct2, THEN conjunct2,
       THEN conjunct2, THEN conjunct1, THEN mp, OF b]
  from c t busy_page show ?thesis
    by (simp add: alice_window alice_request_fields filter_replicate alice_match alice_amounts
        sum_list_replicate)
qed

section \<open>The empty summary and the summary's currency\<close>

text \<open>
  C6. When no record matches (count 0) the summary has total 0 and the fallback currency
  \<^verbatim>\<open>"eur"\<close>. Otherwise the currency is that of the first matching record in the order
  the ledger returned the page; the ledger's currency codes are not empty.
\<close>

theorem empty_summary_and_first_currency:
  assumes "paymentIntents_list api (window_params parse body) = Inr page"
  shows "(res_count (fst (transactions_for_terminal api parse body)) = Some 0 \<longrightarrow>
            res_total (fst (transactions_for_terminal api parse body)) = Some 0
          \<and> res_currency (fst (transactions_for_terminal api parse body)) = Some ''eur'')
       \<and> (res_count (fst (transactions_for_terminal api parse body)) = Some n \<and> n \<noteq> 0 \<longrightarrow>
            (\<exists>m. find (staff_match (jsget body ''staff_name'')) (page_data page) = Some m
                 \<and> hd (res_transactions (fst (transactions_for_terminal api parse body))) = m
                 \<and> (pi_currency m \<noteq> [] \<longrightarrow>
                      res_currency (fst (transactions_for_terminal api parse body))
                        = Some (pi_currency m))))"
  unfolding tft_on_page [OF assms]
  by (auto simp: summary_fields error_fields first_currency_find find_filter_first first_currency_def
      reduce_amounts_def split: list.splits)

theorem empty_summary_and_first_currency_witness:
  "paymentIntents_list (store_ledger [alice_canceled]) (window_params parse_none alice_request)
     = Inr \<lparr>page_data = [alice_canceled], page_has_more = False\<rparr>
   \<and> res_count (fst (transactions_for_terminal (store_ledger [alice_canceled]) parse_none alice_request)) = Some 0
   \<and> res_total (fst (transactions_for_terminal (store_ledger [alice_canceled]) parse_none alice_request)) = Some 0
   \<and> res_currency (fst (transactions_for_terminal (store_ledger [alice_canceled]) parse_none alice_request))
       = Some ''eur''
   \<and> paymentIntents_list (store_ledger [alice_canceled, alice_usd_sale, alice_sale])
        (window_params parse_none alice_request)
     = Inr \<lparr>page_data = [alice_canceled, alice_usd_sale, alice_sale], page_has_more = False\<rparr>
   \<and> res_count (fst (transactions_for_terminal (store_ledger [alice_canceled, alice_usd_sale, alice_sale])
        parse_none alice_request)) = Some 2
   \<and> find (staff_match (jsget alice_request ''staff_name'')) [alice_canceled, alice_usd_sale, alice_sale]
       = Some alice_usd_sale
   \<and> pi_currency alice_usd_sale \<noteq> []
   \<and> res_currency (fst (transactions_for_terminal (store_ledger [alice_canceled, alice_usd_sale, alice_sale])
        parse_none alice_request)) = Some ''usd''"
proof -
  have a: "paymentIntents_list (store_ledger [alice_canceled]) (window_params parse_none alice_request)
     = Inr \<lparr>page_data = [alice_canceled], page_has_more = False\<rparr>"
    by (simp add: store_list alice_window alice_in_window)
  have c0: "res_count (fst (transactions_for_terminal (store_ledger [alice_canceled]) parse_none alice_request))
     = Some 0"
    by (simp add: alice_report_on alice_in_window alice_match summary_fields)
  have b: "paymentIntents_list (store_ledger [alice_canceled, alice_usd_sale, alice_sale])
        (window_params parse_none alice_request)
     = Inr \<lparr>page_data = [alice_canceled, alice_usd_sale, alice_sale], page_has_more = False\<rparr>"
    by (simp add: store_list alice_window alice_in_window)
  have c2: "res_count (fst (transactions_for_terminal (store_ledger [alice_canceled, alice_usd_sale, alice_sale])
        parse_none alice_request)) = Some 2"
    by (simp add: alice_report_on alice_in_window alice_match summary_fields)
  have f: "find (staff_match (jsget alice_request ''staff_name'')) [alice_canceled, alice_usd_sale, alice_sale]
       = Some alice_usd_sale"
    by (simp add: alice_request_fields alice_match)
  from empty_summary_and_first_currency [OF a, where n = 0]
    empty_summary_and_first_currency [OF b, where n = 2] a b c0 c2 f
  show ?thesis
    by (simp add: alice_amounts)
qed

section \<open>Order of the records and the aggregate\<close>

text \<open>
  C7, as stated, has total and count unchanged under every permutation of the records.
  The count is, the total is not: the handler's \<^verbatim>\<open>reduce\<close> adds doubles, and a sum
  beyond \<open>2^53\<close> is rounded at each step. Three records of \<open>2^53\<close>, 1 and 1 minor
  units total \<open>2^53\<close> in this order and \<open>2^53 + 2\<close> with the large one last.
\<close>

theorem total_order_counterexample:
  "mset [unit_sale, unit_sale, huge_sale] = mset [huge_sale, unit_sale, unit_sale]
   \<and> pi_amount huge_sale = 9007199254740992 \<and> pi_amount unit_sale = 1
   \<and> paymentIntents_list (store_ledger [huge_sale, unit_sale, unit_sale])
        (window_params parse_none alice_request)
       = Inr \<lparr>page_data = [huge_sale, unit_sale, unit_sale], page_has_more = False\<rparr>
   \<and> paymentIntents_list (store_ledger [unit_sale, unit_sale, huge_sale])
        (window_params parse_none alice_request)
       = Inr \<lparr>page_data = [unit_sale, unit_sale, huge_sale], page_has_more = False\<rparr>
   \<and> res_total (fst (transactions_for_terminal (store_ledger [huge_sale, unit_sale, unit_sale])
        parse_none alice_request)) = Some 9007199254740992
   \<and> res_total (fst (transactions_for_terminal (store_ledger [unit_sale, unit_sale, huge_sale])
        parse_none alice_request)) = Some 9007199254740994"
  by (simp add: huge_amounts store_list alice_window huge_in_window huge_report_first
      huge_report_last summary_fields reduce_huge_first reduce_huge_last)

text \<open>
  C7, amended. In every version of the report handler, two pages that are permutations
  of each other give the same count; they give the same total whenever the amounts of
  the matching records are not negative and add up to at most \<open>2^53\<close>, so that every
  partial sum is exact.
\<close>

theorem summary_order_independent:
  assumes "h \<in> set report_handlers"
    and "paymentIntents_list api (window_params parse body) = Inr page"
    and "paymentIntents_list api' (window_params parse body) = Inr page'"
    and "mset (page_data page') = mset (page_data page)"
  shows "res_count (fst (h api' parse body)) = res_count (fst (h api parse body))
       \<and> ((\<forall>p\<in>set (res_transactions (fst (h api parse body))). 0 \<le> pi_amount p)
            \<and> sum_list (map pi_amount (res_transactions (fst (h api parse body)))) \<le> 2 ^ 53 \<longrightarrow>
          res_total (fst (h api' parse body)) = res_total (fst (h api parse body)))"
proof -
  have step: "res_count r' = res_count r
       \<and> ((\<forall>p\<in>set (res_transactions r). 0 \<le> pi_amount p)
            \<and> sum_list (map pi_amount (res_transactions r)) \<le> 2 ^ 53 \<longrightarrow>
          res_total r' = res_total r)"
    if "r' = (if c then summary_of (filter P (page_data page')) else respond 400 [(''error'', JString m)])"
      and "r = (if c then summary_of (filter P (page_data page)) else respond 400 [(''error'', JString m)])"
    for r r' c P m
  proof (cases c)
    case False
    with that show ?thesis by simp
  next
    case True
    have "res_total (summary_of (filter P (page_data page')))
            = res_total (summary_of (filter P (page_data page)))"
      if "\<forall>p\<in>set (filter P (page_data page)). 0 \<le> pi_amount p"
        "sum_list (map pi_amount (filter P (page_data page))) \<le> 2 ^ 53"
      using assms(4) that by (rule summary_perm_matching)
    with True that summary_perm [OF assms(4), of P] show ?thesis
      by (simp add: summary_fields(5))
  qed
  from assms(1) consider "h = transactions_for_terminal" | "h = transactions_for_terminal_label"
    | "h = transactions_for_terminal_reader"
    by (auto simp: report_handlers_def)
  then show ?thesis
  proof cases
    case 1
    show ?thesis unfolding 1
      by (rule step) (rule tft_on_page [OF assms(3)], rule tft_on_page [OF assms(2)])
  next
    case 2
    show ?thesis unfolding 2
      by (rule step) (rule tftl_on_page [OF assms(3)], rule tftl_on_page [OF assms(2)])
  next
    case 3
    show ?thesis unfolding 3
      by (rule step) (rule tftr_on_page [OF assms(3)], rule tftr_on_page [OF assms(2)])
  qed
qed

theorem summary_order_independent_witness:
  "transactions_for_terminal \<in> set report_handlers
   \<and> mset [alice_usd_sale, alice_canceled, alice_sale] = mset [alice_sale, alice_usd_sale, alice_canceled]
   \<and> res_transactions (fst (transactions_for_terminal
        (store_ledger [alice_sale, alice_usd_sale, alice_canceled]) parse_none alice_request))
       = [alice_sale, alice_usd_sale]
   \<and> 0 \<le> pi_amount alice_sale \<and> 0 \<le> pi_amount alice_usd_sale
   \<and> pi_amount alice_sale + pi_amount alice_usd_sale \<le> 2 ^ 53
   \<and> res_total (fst (transactions_for_terminal (store_ledger [alice_usd_sale, alice_canceled, alice_sale])
        parse_none alice_request)) = Some 1500
   \<and> res_total (fst (transactions_for_terminal (store_ledger [alice_sale, alice_usd_sale, alice_canceled])
        parse_none alice_request)) = Some 1500
   \<and> res_count (fst (transactions_for_terminal (store_ledger [alice_usd_sale, alice_canceled, alice_sale])
        parse_none alice_request)) = Some 2
   \<and> res_count (fst (transactions_for_terminal (store_ledger [alice_sale, alice_usd_sale, alice_canceled])
        parse_none alice_request)) = Some 2"
proof -
  have h: "transactions_for_terminal \<in> set report_handlers"
    by (simp add: report_handlers_def)
  have a: "paymentIntents_list (store_ledger [alice_sale, alice_usd_sale, alice_canceled])
             (window_params parse_none alice_request)
           = Inr \<lparr>page_data = [alice_sale, alice_usd_sale, alice_canceled], page_has_more = False\<rparr>"
    by (simp add: store_list alice_window alice_in_window)
  have b: "paymentIntents_list (store_ledger [alice_usd_sale, alice_canceled, alice_sale])
             (window_params parse_none alice_request)
           = Inr \<lparr>page_data = [alice_usd_sale, alice_canceled, alice_sale], page_has_more = False\<rparr>"
    by (simp add: store_list alice_window alice_in_window)
  have m: "mset (page_data \<lparr>page_data = [alice_usd_sale, alice_canceled, alice_sale], page_has_more = False\<rparr>)
           = mset (page_data \<lparr>page_data = [alice_sale, alice_usd_sale, alice_canceled], page_has_more = False\<rparr>)"
    by simp
  have x: "res_transactions (fst (transactions_for_terminal
        (store_ledger [alice_sale, alice_usd_sale, alice_canceled]) parse_none alice_request))
       = [alice_sale, alice_usd_sale]"
    and t: "res_total (fst (transactions_for_terminal (store_ledger [alice_sale, alice_usd_sale, alice_canceled])
        parse_none alice_request)) = Some 1500"
    and c: "res_count (fst (transactions_for_terminal (store_ledger [alice_sale, alice_usd_sale, alice_canceled])
        parse_none alice_request)) = Some 2"
    by (simp_all add: alice_report_on alice_in_window alice_match summary_small alice_amounts)
  from summary_order_independent [OF h a b m] x t c h show ?thesis
    by (simp add: alice_amounts)
qed

section \<open>Receipt update: validation\<close>

text \<open>
  C8. When \<^verbatim>\<open>payment_intent_id\<close> or \<^verbatim>\<open>receipt_email\<close> is missing or empty
  (falsy), the update handler answers 400 with its validation message and issues no
  call to the ledger.
\<close>

theorem update_missing_field_rejected:
  assumes "\<not> truthy (jsget body ''payment_intent_id'') \<or> \<not> truthy (jsget body ''receipt_email'')"
  shows "update_payment_intent api body =
           (respond 400 [(''error'', JString ''Missing payment_intent_id or receipt_email'')], [])"
  using assms unfolding update_payment_intent_def Let_def by auto

theorem update_missing_field_rejected_witness:
  "\<not> truthy (jsget [(''payment_intent_id'', JStr ''pi_1''), (''receipt_email'', JStr [])] ''receipt_email'')
   \<and> update_payment_intent (store_ledger [])
        [(''payment_intent_id'', JStr ''pi_1''), (''receipt_email'', JStr [])] =
     (respond 400 [(''error'', JString ''Missing payment_intent_id or receipt_email'')], [])"
  using update_missing_field_rejected
    [of "[(''payment_intent_id'', JStr ''pi_1''), (''receipt_email'', JStr [])]" "store_ledger []"]
  by (simp add: jsget_def)

section \<open>Attribution written at creation\<close>

text \<open>
  C9. The create handler issues exactly one create call, and its metadata always has the
  two keys \<^verbatim>\<open>terminal_label\<close> and \<^verbatim>\<open>staff_name\<close>: a missing or empty (falsy)
  \<^verbatim>\<open>terminal_label\<close> is written as the empty string and a missing or empty
  \<^verbatim>\<open>staff_name\<close> as \<^verbatim>\<open>"Unknown"\<close>. Hence a succeeded record that carries the
  \<^verbatim>\<open>staff_name\<close> written for a request without operator is among the transactions
  of every later report whose \<^verbatim>\<open>staff_name\<close> is exactly \<^verbatim>\<open>"Unknown"\<close> and whose
  page holds the record.
\<close>

theorem unattributed_create_matches_unknown:
  "(\<exists>p. snd (create_payment_intent api body) = [CreateCall p])
   \<and> (\<forall>p. snd (create_payment_intent api body) = [CreateCall p] \<longrightarrow>
       map fst (cp_metadata p) = [''terminal_label'', ''staff_name'']
     \<and> jsget (cp_metadata p) ''terminal_label'' = js_or (jsget body ''terminal_label'') (JStr [])
     \<and> jsget (cp_metadata p) ''staff_name'' = js_or (jsget body ''staff_name'') (JStr ''Unknown'')
     \<and> (\<not> truthy (jsget body ''terminal_label'') \<longrightarrow> jsget (cp_metadata p) ''terminal_label'' = JStr [])
     \<and> (\<not> truthy (jsget body ''staff_name'') \<longrightarrow>
          jsget (cp_metadata p) ''staff_name'' = JStr ''Unknown''
          \<and> (\<forall>api' parse q page R.
                truthy (jsget q ''start'') \<and> truthy (jsget q ''end'')
                \<and> jsget q ''staff_name'' = JStr ''Unknown''
                \<and> paymentIntents_list api' (window_params parse q) = Inr page
                \<and> R \<in> set (page_data page)
                \<and> pi_status R = ''succeeded''
                \<and> jsget (pi_metadata R) ''staff_name'' = jsget (cp_metadata p) ''staff_name''
                \<longrightarrow> R \<in> set (res_transactions (fst (transactions_for_terminal api' parse q))))))"
proof -
  define p0 where "p0 = \<lparr>cp_amount = jsget body ''amount'',
                   cp_currency = jsget body ''currency'',
                   cp_capture_method = ''automatic'',
                   cp_description = js_or (jsget body ''description'') (JStr ''Terminal Transaction''),
                   cp_receipt_email = js_or (jsget body ''receipt_email'') Undefined,
                   cp_payment_method_types = [''card_present''],
                   cp_metadata = [(''terminal_label'', js_or (jsget body ''terminal_label'') (JStr [])),
                                  (''staff_name'', js_or (jsget body ''staff_name'') (JStr ''Unknown''))]\<rparr>"
  have calls: "snd (create_payment_intent api body) = [CreateCall p0]"
    unfolding create_payment_intent_def Let_def p0_def by (simp split: sum.splits)
  have keys: "map fst (cp_metadata p0) = [''terminal_label'', ''staff_name'']"
    by (simp add: p0_def)
  have lab: "jsget (cp_metadata p0) ''terminal_label'' = js_or (jsget body ''terminal_label'') (JStr [])"
    by (simp add: p0_def jsget_def)
  have staff: "jsget (cp_metadata p0) ''staff_name'' = js_or (jsget body ''staff_name'') (JStr ''Unknown'')"
    by (simp add: p0_def jsget_def)
  have later: "R \<in> set (res_transactions (fst (transactions_for_terminal api' parse q)))"
    if "\<not> truthy (jsget body ''staff_name'')"
      and "truthy (jsget q ''start'')" "truthy (jsget q ''end'')"
      and "jsget q ''staff_name'' = JStr ''Unknown''"
      and "paymentIntents_list api' (window_params parse q) = Inr page"
      and "R \<in> set (page_data page)" "pi_status R = ''succeeded''"
      and "jsget (pi_metadata R) ''staff_name'' = jsget (cp_metadata p0) ''staff_name''"
    for api' parse q page R
  proof -
    have "truthy (jsget q ''staff_name'')" using that(4) by simp
    from tft_ok [OF that(2) that(3) this that(5)]
    have "res_transactions (fst (transactions_for_terminal api' parse q))
            = filter (staff_match (JStr ''Unknown'')) (page_data page)"
      by (simp add: summary_fields that(4))
    moreover have "staff_match (JStr ''Unknown'') R"
      using that(1) that(7) that(8) by (simp add: staff_match_def staff js_or_def)
    ultimately show ?thesis using that(6) by simp
  qed
  have all: "map fst (cp_metadata p0) = [''terminal_label'', ''staff_name'']
     \<and> jsget (cp_metadata p0) ''terminal_label'' = js_or (jsget body ''terminal_label'') (JStr [])
     \<and> jsget (cp_metadata p0) ''staff_name'' = js_or (jsget body ''staff_name'') (JStr ''Unknown'')
     \<and> (\<not> truthy (jsget body ''terminal_label'') \<longrightarrow> jsget (cp_metadata p0) ''terminal_label'' = JStr [])
     \<and> (\<not> truthy (jsget body ''staff_name'') \<longrightarrow>
          jsget (cp_metadata p0) ''staff_name'' = JStr ''Unknown''
          \<and> (\<forall>api' parse q page R.
                truthy (jsget q ''start'') \<and> truthy (jsget q ''end'')
                \<and> jsget q ''staff_name'' = JStr ''Unknown''
                \<and> paymentIntents_list api' (window_params parse q) = Inr page
                \<and> R \<in> set (page_data page)
                \<and> pi_status R = ''succeeded''
                \<and> jsget (pi_metadata R) ''staff_name'' = jsget (cp_metadata p0) ''staff_name''
                \<longrightarrow> R \<in> set (res_transactions (fst (transactions_for_terminal api' parse q)))))"
    using keys lab staff later by (simp add: js_or_def)
  have "snd (create_payment_intent api body) = [CreateCall p] \<longrightarrow>
       map fst (cp_metadata p) = [''terminal_label'', ''staff_name'']
     \<and> jsget (cp_metadata p) ''terminal_label'' = js_or (jsget body ''terminal_label'') (JStr [])
     \<and> jsget (cp_metadata p) ''staff_name'' = js_or (jsget body ''staff_name'') (JStr ''Unknown'')
     \<and> (\<not> truthy (jsget body ''terminal_label'') \<longrightarrow> jsget (cp_metadata p) ''terminal_label'' = JStr [])
     \<and> (\<not> truthy (jsget body ''staff_name'') \<longrightarrow>
          jsget (cp_metadata p) ''staff_name'' = JStr ''Unknown''
          \<and> (\<forall>api' parse q page R.
                truthy (jsget q ''start'') \<and> truthy (jsget q ''end'')
                \<and> jsget q ''staff_name'' = JStr ''Unknown''
                \<and> paymentIntents_list api' (window_params parse q) = Inr page
                \<and> R \<in> set (page_data page)
                \<and> pi_status R = ''succeeded''
                \<and> jsget (pi_metadata R) ''staff_name'' = jsget (cp_metadata p) ''staff_name''
                \<longrightarrow> R \<in> set (res_transactions (fst (transactions_for_terminal api' parse q)))))" for p
  proof (rule impI)
    assume "snd (create_payment_intent api body) = [CreateCall p]"
    with calls have pe: "p = p0" by simp
    show "map fst (cp_metadata p) = [''terminal_label'', ''staff_name'']
     \<and> jsget (cp_metadata p) ''terminal_label'' = js_or (jsget body ''terminal_label'') (JStr [])
     \<and> jsget (cp_metadata p) ''staff_name'' = js_or (jsget body ''staff_name'') (JStr ''Unknown'')
     \<and> (\<not> truthy (jsget body ''terminal_label'') \<longrightarrow> jsget (cp_metadata p) ''terminal_label'' = JStr [])
     \<and> (\<not> truthy (jsget body ''staff_name'') \<longrightarrow>
          jsget (cp_metadata p) ''staff_name'' = JStr ''Unknown''
          \<and> (\<forall>api' parse q page R.
                truthy (jsget q ''start'') \<and> truthy (jsget q ''end'')
                \<and> jsget q ''staff_name'' = JStr ''Unknown''
                \<and> paymentIntents_list api' (window_params parse q) = Inr page
                \<and> R \<in> set (page_data page)
                \<and> pi_status R = ''succeeded''
                \<and> jsget (pi_metadata R) ''staff_name'' = jsget (cp_metadata p) ''staff_name''
                \<longrightarrow> R \<in> set (res_transactions (fst (transactions_for_terminal api' parse q)))))"
      unfolding pe by (rule all)
  qed
  then have second: "\<forall>p. snd (create_payment_intent api body) = [CreateCall p] \<longrightarrow>
       map fst (cp_metadata p) = [''terminal_label'', ''staff_name'']
     \<and> jsget (cp_metadata p) ''terminal_label'' = js_or (jsget body ''terminal_label'') (JStr [])
     \<and> jsget (cp_metadata p) ''staff_name'' = js_or (jsget body ''staff_name'') (JStr ''Unknown'')
     \<and> (\<not> truthy (jsget body ''terminal_label'') \<longrightarrow> jsget (cp_metadata p) ''terminal_label'' = JStr [])
     \<and> (\<not> truthy (jsget body ''staff_name'') \<longrightarrow>
          jsget (cp_metadata p) ''staff_name'' = JStr ''Unknown''
          \<and> (\<forall>api' parse q page R.
                truthy (jsget q ''start'') \<and> truthy (jsget q ''end'')
                \<and> jsget q ''staff_name'' = JStr ''Unknown''
                \<and> paymentIntents_list api' (window_params parse q) = Inr page
                \<and> R \<in> set (page_data page)
                \<and> pi_status R = ''succeeded''
                \<and> jsget (pi_metadata R) ''staff_name'' = jsget (cp_metadata p) ''staff_name''
                \<longrightarrow> R \<in> set (res_transactions (fst (transactions_for_terminal api' parse q)))))"
    by (rule allI)
  have first: "\<exists>p. snd (create_payment_intent api body) = [CreateCall p]"
    using calls by (rule exI)
  from first second show ?thesis by (rule conjI)
qed

theorem unattributed_create_matches_unknown_witness:
  "\<not> truthy (jsget walk_in_body ''staff_name'')
   \<and> \<not> truthy (jsget walk_in_body ''terminal_label'')
   \<and> snd (create_payment_intent (store_ledger []) walk_in_body) =
       [CreateCall \<lparr>cp_amount = JNum 1000, cp_currency = JStr ''eur'',
                    cp_capture_method = ''automatic'',
                    cp_description = JStr ''Terminal Transaction'',
                    cp_receipt_email = Undefined,
                    cp_payment_method_types = [''card_present''],
                    cp_metadata = [(''terminal_label'', JStr []), (''staff_name'', JStr ''Unknown'')]\<rparr>]
   \<and> pi_status unknown_sale = ''succeeded''
   \<and> unknown_sale \<in> set (res_transactions (fst
        (transactions_for_terminal (store_ledger [unknown_sale]) parse_none unknown_request)))"
proof -
  have n: "\<not> truthy (jsget walk_in_body ''staff_name'')"
    and n': "\<not> truthy (jsget walk_in_body ''terminal_label'')"
    by (simp_all add: walk_in_body_def jsget_def)
  have c: "snd (create_payment_intent (store_ledger []) walk_in_body) =
       [CreateCall \<lparr>cp_amount = JNum 1000, cp_currency = JStr ''eur'',
                    cp_capture_method = ''automatic'',
                    cp_description = JStr ''Terminal Transaction'',
                    cp_receipt_email = Undefined,
                    cp_payment_method_types = [''card_present''],
                    cp_metadata = [(''terminal_label'', JStr []), (''staff_name'', JStr ''Unknown'')]\<rparr>]"
    by (simp add: create_payment_intent_def walk_in_body_def jsget_def js_or_def store_ledger_def)
  have s: "pi_status unknown_sale = ''succeeded''"
    and m: "jsget (pi_metadata unknown_sale) ''staff_name'' = JStr ''Unknown''"
    by (simp_all add: unknown_sale_def sale_def jsget_def)
  have l: "paymentIntents_list (store_ledger [unknown_sale]) (window_params parse_none unknown_request)
             = Inr \<lparr>page_data = [unknown_sale], page_has_more = False\<rparr>"
    by (simp add: store_list unknown_window in_window_def unknown_sale_def sale_def)
  note w = unattributed_create_matches_unknown [of "store_ledger []" walk_in_body,
      THEN conjunct2, rule_format, OF c]
  note later = w [THEN conjunct2, THEN conjunct2, THEN conjunct2, THEN conjunct2, THEN mp, OF n,
      THEN conjunct2]
  have "unknown_sale \<in> set (res_transactions (fst
        (transactions_for_terminal (store_ledger [unknown_sale]) parse_none unknown_request)))"
    using later [rule_format, of unknown_request "store_ledger [unknown_sale]" parse_none
        "\<lparr>page_data = [unknown_sale], page_has_more = False\<rparr>" unknown_sale]
      l s m
    by (simp add: unknown_request_fields jsget_Nil jsget_Cons)
  with n n' c s show ?thesis by simp
qed

section \<open>One total over all currencies\<close>

text \<open>
  C10. The total is the sum of the amounts of all records that match on status and
  operator, whatever their currencies: the sum as the \<^verbatim>\<open>reduce\<close> adds it, which is the
  exact sum for amounts that are not negative and add up to at most \<open>2^53\<close>. No
  currency is compared: replacing the currencies of the page's records by any others
  leaves total and count unchanged. The summary's currency is that of the first matching
  record of the page (\<^verbatim>\<open>"eur"\<close> if that is empty) and of no other record: two pages
  with the same first matching record report the same currency. The example after it
  adds 500 (usd) and 1000 (eur) to 1500, reported as usd.
\<close>

theorem total_sums_across_currencies:
  assumes "truthy (jsget body ''start'')" "truthy (jsget body ''end'')"
    "truthy (jsget body ''staff_name'')"
    "paymentIntents_list api (window_params parse body) = Inr page"
  shows "res_total (fst (transactions_for_terminal api parse body))
           = num_value (foldl (\<lambda>sum pi. js_add sum (to_double (pi_amount pi))) (Finite 0)
               (filter (\<lambda>pi. pi_status pi = ''succeeded''
                      \<and> jsget (pi_metadata pi) ''staff_name'' = jsget body ''staff_name'') (page_data page)))
       \<and> ((\<forall>p\<in>set (page_data page). 0 \<le> pi_amount p)
            \<and> sum_list (map pi_amount (page_data page)) \<le> 2 ^ 53 \<longrightarrow>
          res_total (fst (transactions_for_terminal api parse body))
            = Some (sum_list (map pi_amount (filter (\<lambda>pi. pi_status pi = ''succeeded''
                      \<and> jsget (pi_metadata pi) ''staff_name'' = jsget body ''staff_name'') (page_data page)))))
       \<and> (\<forall>m. find (\<lambda>pi. pi_status pi = ''succeeded''
                      \<and> jsget (pi_metadata pi) ''staff_name'' = jsget body ''staff_name'') (page_data page) = Some m \<longrightarrow>
            res_currency (fst (transactions_for_terminal api parse body))
              = Some (if pi_currency m \<noteq> [] then pi_currency m else ''eur''))
       \<and> (\<forall>g api'.
            paymentIntents_list api' (window_params parse body)
              = Inr (page\<lparr>page_data := map (\<lambda>p. p\<lparr>pi_currency := g p\<rparr>) (page_data page)\<rparr>)
            \<longrightarrow> res_total (fst (transactions_for_terminal api' parse body))
                  = res_total (fst (transactions_for_terminal api parse body))
              \<and> res_count (fst (transactions_for_terminal api' parse body))
                  = res_count (fst (transactions_for_terminal api parse body)))
       \<and> (\<forall>api' page'.
            paymentIntents_list api' (window_params parse body) = Inr page'
            \<and> find (\<lambda>pi. pi_status pi = ''succeeded''
                      \<and> jsget (pi_metadata pi) ''staff_name'' = jsget body ''staff_name'') (page_data page') = find (\<lambda>pi. pi_status pi = ''succeeded''
                      \<and> jsget (pi_metadata pi) ''staff_name'' = jsget body ''staff_name'') (page_data page)
            \<longrightarrow> res_currency (fst (transactions_for_terminal api' parse body))
                  = res_currency (fst (transactions_for_terminal api parse body)))"
proof -
  let ?s = "jsget body ''staff_name''"
  have mm: "(\<lambda>pi. pi_status pi = ''succeeded''
                      \<and> jsget (pi_metadata pi) ''staff_name'' = jsget body ''staff_name'')
           = staff_match ?s"
    by (simp add: staff_match_fun)
  have r: "fst (transactions_for_terminal api parse body)
             = summary_of (filter (staff_match ?s) (page_data page))"
    by (simp add: tft_ok [OF assms])
  have A: "res_total (fst (transactions_for_terminal api parse body))
           = num_value (foldl (\<lambda>sum pi. js_add sum (to_double (pi_amount pi))) (Finite 0)
               (filter (staff_match ?s) (page_data page)))"
    by (simp add: r summary_fields reduce_amounts_def)
  have B: "res_total (fst (transactions_for_terminal api parse body))
            = Some (sum_list (map pi_amount (filter (staff_match ?s) (page_data page))))"
    if "\<forall>p\<in>set (page_data page). 0 \<le> pi_amount p"
      "sum_list (map pi_amount (page_data page)) \<le> 2 ^ 53"
    unfolding r using that by (rule filtered_total_exact)
  have C: "res_currency (fst (transactions_for_terminal api parse body))
              = Some (if pi_currency m \<noteq> [] then pi_currency m else ''eur'')"
    if "find (staff_match ?s) (page_data page) = Some m" for m
    using that by (simp add: r summary_fields first_currency_find)
  have D: "res_total (fst (transactions_for_terminal api' parse body))
                  = res_total (fst (transactions_for_terminal api parse body))
              \<and> res_count (fst (transactions_for_terminal api' parse body))
                  = res_count (fst (transactions_for_terminal api parse body))"
    if l: "paymentIntents_list api' (window_params parse body)
              = Inr (page\<lparr>page_data := map (\<lambda>p. p\<lparr>pi_currency := g p\<rparr>) (page_data page)\<rparr>)"
    for g and api' :: stripe
    by (simp add: r tft_ok [OF assms(1-3) l] summary_fields filter_recurrency reduce_recurrency)
  have E: "res_currency (fst (transactions_for_terminal api' parse body))
                  = res_currency (fst (transactions_for_terminal api parse body))"
    if l: "paymentIntents_list api' (window_params parse body) = Inr page'"
      and f: "find (staff_match ?s) (page_data page') = find (staff_match ?s) (page_data page)"
    for api' :: stripe and page'
    by (simp add: r tft_ok [OF assms(1-3) l] summary_fields first_currency_find f)
  from A B C D E show ?thesis
    unfolding mm by blast
qed

theorem total_sums_across_currencies_witness:
  "truthy (jsget alice_request ''start'') \<and> truthy (jsget alice_request ''end'')
   \<and> truthy (jsget alice_request ''staff_name'')
   \<and> paymentIntents_list (store_ledger [alice_usd_sale, alice_sale]) (window_params parse_none alice_request)
       = Inr \<lparr>page_data = [alice_usd_sale, alice_sale], page_has_more = False\<rparr>
   \<and> pi_currency alice_usd_sale = ''usd'' \<and> pi_amount alice_usd_sale = 500
   \<and> pi_currency alice_sale = ''eur'' \<and> pi_amount alice_sale = 1000
   \<and> find (\<lambda>pi. pi_status pi = ''succeeded''
                 \<and> jsget (pi_metadata pi) ''staff_name'' = jsget alice_request ''staff_name'')
        [alice_usd_sale, alice_sale] = Some alice_usd_sale
   \<and> res_total (fst (transactions_for_terminal (store_ledger [alice_usd_sale, alice_sale])
        parse_none alice_request)) = Some 1500
   \<and> res_currency (fst (transactions_for_terminal (store_ledger [alice_usd_sale, alice_sale])
        parse_none alice_request)) = Some ''usd''
   \<and> paymentIntents_list
        (store_ledger (map (\<lambda>p. p\<lparr>pi_currency := ''gbp''\<rparr>) [alice_usd_sale, alice_sale]))
        (window_params parse_none alice_request)
       = Inr \<lparr>page_data = map (\<lambda>p. p\<lparr>pi_currency := ''gbp''\<rparr>) [alice_usd_sale, alice_sale],
              page_has_more = False\<rparr>
   \<and> res_total (fst (transactions_for_terminal
        (store_ledger (map (\<lambda>p. p\<lparr>pi_currency := ''gbp''\<rparr>) [alice_usd_sale, alice_sale]))
        parse_none alice_request)) = Some 1500
   \<and> paymentIntents_list (store_ledger [alice_canceled, alice_usd_sale])
        (window_params parse_none alice_request)
       = Inr \<lparr>page_data = [alice_canceled, alice_usd_sale], page_has_more = False\<rparr>
   \<and> res_currency (fst (transactions_for_terminal (store_ledger [alice_canceled, alice_usd_sale])
        parse_none alice_request)) = Some ''usd''"
proof -
  have t: "truthy (jsget alice_request ''start'')" "truthy (jsget alice_request ''end'')"
    "truthy (jsget alice_request ''staff_name'')"
    by (simp_all add: alice_request_fields)
  have l: "paymentIntents_list (store_ledger [alice_usd_sale, alice_sale])
             (window_params parse_none alice_request)
       = Inr \<lparr>page_data = [alice_usd_sale, alice_sale], page_has_more = False\<rparr>"
    by (simp add: store_list alice_window alice_in_window)
  have l': "paymentIntents_list
        (store_ledger (map (\<lambda>p. p\<lparr>pi_currency := ''gbp''\<rparr>) [alice_usd_sale, alice_sale]))
        (window_params parse_none alice_request)
       = Inr \<lparr>page_data = map (\<lambda>p. p\<lparr>pi_currency := ''gbp''\<rparr>) [alice_usd_sale, alice_sale],
              page_has_more = False\<rparr>"
    by (simp add: store_list alice_window in_window_def alice_sale_def alice_usd_sale_def sale_def)
  have l'': "paymentIntents_list (store_ledger [alice_canceled, alice_usd_sale])
        (window_params parse_none alice_request)
       = Inr \<lparr>page_data = [alice_canceled, alice_usd_sale], page_has_more = False\<rparr>"
    by (simp add: store_list alice_window alice_in_window)
  have f: "find (\<lambda>pi. pi_status pi = ''succeeded''
                 \<and> jsget (pi_metadata pi) ''staff_name'' = jsget alice_request ''staff_name'')
        [alice_usd_sale, alice_sale] = Some alice_usd_sale"
    and f'': "find (\<lambda>pi. pi_status pi = ''succeeded''
                 \<and> jsget (pi_metadata pi) ''staff_name'' = jsget alice_request ''staff_name'')
        [alice_canceled, alice_usd_sale] = Some alice_usd_sale"
    by (simp_all add: alice_request_fields alice_sale_def alice_usd_sale_def alice_canceled_def
        sale_def jsget_Nil jsget_Cons)
  have b: "(\<forall>p\<in>set (page_data \<lparr>page_data = [alice_usd_sale, alice_sale], page_has_more = False\<rparr>).
              0 \<le> pi_amount p)
           \<and> sum_list (map pi_amount
                (page_data \<lparr>page_data = [alice_usd_sale, alice_sale], page_has_more = False\<rparr>)) \<le> 2 ^ 53"
    by (simp add: alice_amounts)
  note w = total_sums_across_currencies [OF t l]
  have tot: "res_total (fst (transactions_for_terminal (store_ledger [alice_usd_sale, alice_sale])
        parse_none alice_request)) = Some 1500"
    using w [THEN conjunct2, THEN conjunct1, THEN mp, OF b] alice_match
    by (simp add: staff_match_def alice_request_fields alice_amounts)
  have cur: "res_currency (fst (transactions_for_terminal (store_ledger [alice_usd_sale, alice_sale])
        parse_none alice_request)) = Some ''usd''"
    using w [THEN conjunct2, THEN conjunct2, THEN conjunct1, rule_format, of alice_usd_sale] f
    by (simp add: alice_amounts)
  have tot': "res_total (fst (transactions_for_terminal
        (store_ledger (map (\<lambda>p. p\<lparr>pi_currency := ''gbp''\<rparr>) [alice_usd_sale, alice_sale]))
        parse_none alice_request)) = Some 1500"
    using w [THEN conjunct2, THEN conjunct2, THEN conjunct2, THEN conjunct1, rule_format,
        of "store_ledger (map (\<lambda>p. p\<lparr>pi_currency := ''gbp''\<rparr>) [alice_usd_sale, alice_sale])"
           "\<lambda>p. ''gbp''"] l' tot
    by simp
  have cur'': "res_currency (fst (transactions_for_terminal (store_ledger [alice_canceled, alice_usd_sale])
        parse_none alice_request)) = Some ''usd''"
    using w [THEN conjunct2, THEN conjunct2, THEN conjunct2, THEN conjunct2, rule_format,
        of "store_ledger [alice_canceled, alice_usd_sale]"
           "\<lparr>page_data = [alice_canceled, alice_usd_sale], page_has_more = False\<rparr>"] l'' f f'' cur
    by simp
  from t l l' l'' f tot cur tot' cur'' show ?thesis
    by (simp add: alice_amounts)
qed

end
